theory Spec2Isabelle
  imports Main "HOL-Library.Word"
begin

section \<open>Abstract syntax (parser/ast.py)\<close>

text \<open>
  Tokens are reduced to what the interpreter reads from them: an operator token to its
  \<open>type\<close>, a name token to its \<open>lexeme\<close>.  A literal carries one of the host
  values the lexer and parser produce (\<open>False\<close>, \<open>True\<close>, an \<open>int\<close>, a
  \<open>float\<close> or a \<open>str\<close>).
\<close>

type_synonym ref = nat

text \<open>A host \<open>float\<close> is kept as its 64-bit pattern; its arithmetic is a parameter.\<close>

type_synonym pyfloat = "64 word"

datatype token_type =
    MINUS | PLUS | SLASH | STAR | MODULO | EXPODENT
  | BANG | BANG_EQUAL | EQUAL_EQUAL
  | GREATER | GREATER_EQUAL | LESS | LESS_EQUAL
  | AND | OR

datatype literal = LNone | LBool bool | LInt int | LFloat pyfloat | LStr string

datatype expr =
    Binary expr token_type expr
  | Grouping expr
  | Literal literal
  | Unary token_type expr
  | Variable string
  | Assign string expr
  | Call expr "expr list"
  | Get expr string
  | Set expr string expr
  | ListExpr "expr list"
  | Index expr expr
  | IndexAssign expr expr expr
  | Dictionary "expr list" "expr list"
  | Logical expr token_type expr
  | This
  | Super string
  | New string "expr list"

datatype stmt =
    ExpressionStmt expr
  | PrintStmt expr
  | InputStmt string "expr option"
  | BlockStmt "stmt list"
  | IfStmt expr stmt "stmt option"
  | WhileStmt expr stmt
  | FunctionStmt string "string list" "stmt list"
  | ReturnStmt "expr option"
  | ForEach string expr stmt
  | Class string "expr option" "stmt list"

text \<open>The fields of a \<open>FunctionStmt\<close> node; any other node has no parameters or body.\<close>

fun decl_name :: "stmt \<Rightarrow> string" where
  "decl_name (FunctionStmt n ps b) = n"
| "decl_name _ = []"

fun params :: "stmt \<Rightarrow> string list" where
  "params (FunctionStmt n ps b) = ps"
| "params _ = []"

fun body :: "stmt \<Rightarrow> stmt list" where
  "body (FunctionStmt n ps b) = b"
| "body _ = []"

section \<open>Runtime values (interpreter/interpreter.py, parser/runtime.py)\<close>

text \<open>
  \<open>Function\<close> holds its declaration and the reference of its closure environment.
  A \<open>BuiltinFunction\<close> holds \<open>arity_count\<close> and the host operation \<open>fn\<close>; the
  operations are the three of \<open>define_globals\<close> and the two lambdas that
  \<open>visit_get_expr\<close> closes over a list object.
\<close>

datatype func = Function stmt ref

datatype host_fn = Append | Pop | Length | ListAppend ref | ListPop ref

datatype builtin = BuiltinFunction nat host_fn

text \<open>
  A \<open>LoxClass\<close> is never mutated after construction, so it is kept by value: its name,
  its superclass and its method table (a dict built by insertion, so a later method of the
  same name replaces the earlier one).
\<close>

datatype lox_class = LoxClass string "lox_class option" "(string \<times> func) list"

text \<open>
  The host compares functions, built-in functions, classes and instances by object
  identity.  A list, a dict or an instance is identified by its reference into the heap.
  A value that is a \<open>Function\<close>, \<open>BuiltinFunction\<close> or \<open>LoxClass\<close> object
  carries the identity of the object, a number drawn from a counter of the state when the
  object is created; copying the value keeps the identity.  (The \<open>Function\<close> objects
  in a method table and the class objects in a superclass link or in an instance never
  become values themselves: a method is bound, which creates a new object, before it is
  handed out.)
\<close>

type_synonym oid = nat

datatype "value" =
    VNone
  | VBool bool
  | VInt int
  | VFloat pyfloat
  | VStr string
  | VList ref
  | VDict ref
  | VFunction oid func
  | VBuiltin oid builtin
  | VClass oid lox_class
  | VInstance ref

text \<open>
  The exceptions that can travel through the interpreter.  \<open>LoxRuntimeError\<close> is the
  class \<open>RuntimeError(Exception)\<close> that interpreter.py defines and that
  \<open>Interpreter.interpret\<close> catches.  \<open>PyRuntimeError\<close> is the host's built-in
  \<open>RuntimeError\<close>, which is what the name \<open>RuntimeError\<close> denotes inside
  parser/runtime.py (that module imports nothing).  The remaining ones are host exceptions
  raised by the host operations the interpreter uses.
\<close>

datatype exc =
    LoxRuntimeError string
  | PyRuntimeError string
  | ReturnException "value"
  | AttributeError string
  | IndexError string
  | TypeError string
  | ZeroDivisionError string
  | EOFError

record environment =
  vals :: "string \<rightharpoonup> value"
  enclosing :: "ref option"

record lox_instance =
  klass :: lox_class
  inst_fields :: "string \<rightharpoonup> value"

text \<open>
  The interpreter's state: the heap of the objects that are mutated and shared by
  reference (environments, lists, dicts, instances; a reference is an index, allocation
  appends), the counter of object identities, the register \<open>self.environment\<close>, and
  the two console streams (the text written so far, and the lines still to be read).
  \<open>self.globals\<close> is the environment at reference 0.
\<close>

record state =
  envs :: "environment list"
  lists :: "value list list"
  dicts :: "(value \<times> value) list list"
  instances :: "lox_instance list"
  next_id :: oid
  environment :: ref
  stdout :: string
  stdin :: "string list"

section \<open>Environment\<close>

definition new_env :: "ref option \<Rightarrow> environment" where
  "new_env e = \<lparr>vals = Map.empty, enclosing = e\<rparr>"

text \<open>\<open>Environment(enclosing)\<close>: allocate, returning the new reference.\<close>

definition alloc_env :: "ref option \<Rightarrow> state \<Rightarrow> ref \<times> state" where
  "alloc_env e s = (length (envs s), s\<lparr>envs := envs s @ [new_env e]\<rparr>)"

text \<open>\<open>Environment.define\<close>: insert or overwrite in this scope only.\<close>

definition env_define :: "ref \<Rightarrow> string \<Rightarrow> value \<Rightarrow> state \<Rightarrow> state" where
  "env_define r name v s =
     s\<lparr>envs := (envs s)[r := (envs s ! r)\<lparr>vals := (vals (envs s ! r))(name \<mapsto> v)\<rparr>]\<rparr>"

text \<open>
  The walk along \<open>enclosing\<close> that \<open>get\<close>, \<open>assign\<close>, \<open>lookup_variable\<close>
  and \<open>assign_variable\<close> all perform: the first scope of the chain that has the name.
  An environment is created with an already existing parent, so a parent's reference is
  smaller than its child's; \<open>BadRef\<close> marks a heap that is not of that shape.
\<close>

datatype scope = Scope ref | NoScope | BadRef

function find_scope :: "environment list \<Rightarrow> ref \<Rightarrow> string \<Rightarrow> scope" where
  "find_scope h r name =
     (if r < length h then
        (if name \<in> dom (vals (h ! r)) then Scope r
         else (case enclosing (h ! r) of
                 None \<Rightarrow> NoScope
               | Some e \<Rightarrow> if e < r then find_scope h e name else BadRef))
      else BadRef)"
  by pat_completeness auto
termination
  by (relation "measure (\<lambda>(h, r, name). r)") auto

declare find_scope.simps [simp del]

text \<open>\<open>Environment.get\<close> and \<open>Interpreter.lookup_variable\<close>.\<close>

definition env_get :: "ref \<Rightarrow> string \<Rightarrow> state \<Rightarrow> (exc + value) option" where
  "env_get r name s =
     (case find_scope (envs s) r name of
        Scope q \<Rightarrow> Some (Inr (the (vals (envs s ! q) name)))
      | NoScope \<Rightarrow> Some (Inl (LoxRuntimeError (''Undefined variable '' @ [CHR 0x27] @ name @ [CHR 0x27] @ ''.'')))
      | BadRef \<Rightarrow> None)"

definition lookup_variable :: "string \<Rightarrow> state \<Rightarrow> (exc + value) option" where
  "lookup_variable name s = env_get (environment s) name s"

text \<open>\<open>Environment.assign\<close>: overwrite the first match, or raise.\<close>

definition env_assign :: "ref \<Rightarrow> string \<Rightarrow> value \<Rightarrow> state \<Rightarrow> (exc + state) option" where
  "env_assign r name v s =
     (case find_scope (envs s) r name of
        Scope q \<Rightarrow> Some (Inr (env_define q name v s))
      | NoScope \<Rightarrow> Some (Inl (LoxRuntimeError (''Undefined variable '' @ [CHR 0x27] @ name @ [CHR 0x27] @ ''.'')))
      | BadRef \<Rightarrow> None)"

text \<open>
  \<open>Interpreter.assign_variable\<close>: overwrite the first match; when the loop ends
  without one, \<open>self.environment.define(name.lexeme, value)\<close>.
\<close>

definition assign_variable :: "string \<Rightarrow> value \<Rightarrow> state \<Rightarrow> state option" where
  "assign_variable name v s =
     (case find_scope (envs s) (environment s) name of
        Scope q \<Rightarrow> Some (env_define q name v s)
      | NoScope \<Rightarrow> Some (env_define (environment s) name v s)
      | BadRef \<Rightarrow> None)"

text \<open>\<open>Interpreter.__init__\<close> before \<open>define_globals\<close>: one empty global scope.\<close>

definition empty_state :: "string list \<Rightarrow> state" where
  "empty_state inp =
     \<lparr>envs = [new_env None], lists = [], dicts = [], instances = [], next_id = 0,
      environment = 0, stdout = [], stdin = inp\<rparr>"

section \<open>Callables\<close>

text \<open>
  \<open>callee.arity()\<close> as \<open>visit_call_expr\<close> evaluates it.  \<open>Function\<close> and
  \<open>BuiltinFunction\<close> define the method; \<open>LoxClass\<close> defines \<open>find_method\<close>,
  \<open>call\<close> and \<open>__str__\<close> only, so the attribute lookup fails there.
\<close>

fun type_name :: "value \<Rightarrow> string" where
  "type_name VNone = ''NoneType''"
| "type_name (VBool b) = ''bool''"
| "type_name (VInt i) = ''int''"
| "type_name (VFloat f) = ''float''"
| "type_name (VStr s) = ''str''"
| "type_name (VList r) = ''list''"
| "type_name (VDict r) = ''dict''"
| "type_name (VFunction i f) = ''Function''"
| "type_name (VBuiltin i b) = ''BuiltinFunction''"
| "type_name (VClass i c) = ''LoxClass''"
| "type_name (VInstance r) = ''LoxInstance''"

definition no_attribute_of :: "string \<Rightarrow> string \<Rightarrow> exc" where
  "no_attribute_of ty a =
     AttributeError ([CHR 0x27] @ ty @ [CHR 0x27] @ '' object has no attribute ''
                     @ [CHR 0x27] @ a @ [CHR 0x27])"

definition no_attribute :: "value \<Rightarrow> string \<Rightarrow> exc" where
  "no_attribute v a = no_attribute_of (type_name v) a"

fun arity :: "value \<Rightarrow> exc + nat" where
  "arity (VFunction i (Function d c)) = Inr (length (params d))"
| "arity (VBuiltin i (BuiltinFunction n f)) = Inr n"
| "arity v = Inl (no_attribute v ''arity'')"

text \<open>\<open>callable(getattr(callee, "call", None))\<close> and \<open>hasattr(klass, 'call')\<close>.\<close>

fun has_call :: "value \<Rightarrow> bool" where
  "has_call (VFunction i f) = True"
| "has_call (VBuiltin i b) = True"
| "has_call (VClass i c) = True"
| "has_call _ = False"

text \<open>\<open>LoxClass.find_method\<close>: own table first, then the superclass chain.\<close>

fun find_method :: "lox_class \<Rightarrow> string \<Rightarrow> func option" where
  "find_method (LoxClass n super ms) name =
     (case map_of ms name of
        Some f \<Rightarrow> Some f
      | None \<Rightarrow> (case super of None \<Rightarrow> None | Some c \<Rightarrow> find_method c name))"

section \<open>Host operations\<close>

text \<open>
  What the interpreter takes from its host language and what is not computed here:
  floating-point arithmetic and conversion, the \<open>repr\<close> of a string, and the default
  \<open>repr\<close> of an object (it shows the type and a memory address).  A power is a
  float or an exception here; the complex number that the host gives for a negative base
  with a fractional exponent is outside the values represented.
\<close>

record host =
  float_of_int :: "int \<Rightarrow> pyfloat"
  float_add :: "pyfloat \<Rightarrow> pyfloat \<Rightarrow> pyfloat"
  float_sub :: "pyfloat \<Rightarrow> pyfloat \<Rightarrow> pyfloat"
  float_mul :: "pyfloat \<Rightarrow> pyfloat \<Rightarrow> pyfloat"
  float_truediv :: "pyfloat \<Rightarrow> pyfloat \<Rightarrow> pyfloat"
  int_truediv :: "int \<Rightarrow> int \<Rightarrow> exc + pyfloat"
  float_mod :: "pyfloat \<Rightarrow> pyfloat \<Rightarrow> pyfloat"
  float_pow :: "pyfloat \<Rightarrow> pyfloat \<Rightarrow> exc + pyfloat"
  float_neg :: "pyfloat \<Rightarrow> pyfloat"
  float_eq :: "pyfloat \<Rightarrow> pyfloat \<Rightarrow> bool"
  float_lt :: "pyfloat \<Rightarrow> pyfloat \<Rightarrow> bool"
  float_str :: "pyfloat \<Rightarrow> string"
  float_of_str :: "string \<Rightarrow> pyfloat"
  str_repr :: "string \<Rightarrow> string"
  object_repr :: "value \<Rightarrow> string"

subsection \<open>\<open>str\<close> of an integer\<close>

function str_nat :: "nat \<Rightarrow> string" where
  "str_nat n = (if n < 10 then [char_of (48 + n)]
                else str_nat (n div 10) @ [char_of (48 + n mod 10)])"
  by pat_completeness auto
termination
  by (relation "measure id") auto

declare str_nat.simps [simp del]

definition str_int :: "int \<Rightarrow> string" where
  "str_int i = (if i < 0 then ''-'' @ str_nat (nat (- i)) else str_nat (nat i))"

definition str_bool :: "bool \<Rightarrow> string" where
  "str_bool b = (if b then ''True'' else ''False'')"

subsection \<open>Numbers\<close>

text \<open>
  \<open>isinstance(x, int)\<close> holds for an \<open>int\<close> and for a \<open>bool\<close> (in the host,
  \<open>bool\<close> is a subclass of \<open>int\<close>, with \<open>True == 1\<close>);
  \<open>isinstance(x, (int, float))\<close> holds for these and for a \<open>float\<close>.
\<close>

fun as_int :: "value \<Rightarrow> int option" where
  "as_int (VBool b) = Some (if b then 1 else 0)"
| "as_int (VInt i) = Some i"
| "as_int _ = None"

datatype num = NInt int | NFloat pyfloat

fun as_num :: "value \<Rightarrow> num option" where
  "as_num (VBool b) = Some (NInt (if b then 1 else 0))"
| "as_num (VInt i) = Some (NInt i)"
| "as_num (VFloat f) = Some (NFloat f)"
| "as_num _ = None"

fun to_float :: "host \<Rightarrow> num \<Rightarrow> pyfloat" where
  "to_float H (NInt i) = float_of_int H i"
| "to_float H (NFloat f) = f"

fun num_eq :: "host \<Rightarrow> num \<Rightarrow> num \<Rightarrow> bool" where
  "num_eq H (NInt i) (NInt j) = (i = j)"
| "num_eq H a b = float_eq H (to_float H a) (to_float H b)"

fun num_lt :: "host \<Rightarrow> num \<Rightarrow> num \<Rightarrow> bool" where
  "num_lt H (NInt i) (NInt j) = (i < j)"
| "num_lt H a b = float_lt H (to_float H a) (to_float H b)"

subsection \<open>Heap access\<close>

definition list_at :: "state \<Rightarrow> ref \<Rightarrow> value list option" where
  "list_at s r = (if r < length (lists s) then Some (lists s ! r) else None)"

definition dict_at :: "state \<Rightarrow> ref \<Rightarrow> (value \<times> value) list option" where
  "dict_at s r = (if r < length (dicts s) then Some (dicts s ! r) else None)"

definition instance_at :: "state \<Rightarrow> ref \<Rightarrow> lox_instance option" where
  "instance_at s r = (if r < length (instances s) then Some (instances s ! r) else None)"

definition set_list :: "ref \<Rightarrow> value list \<Rightarrow> state \<Rightarrow> state" where
  "set_list r xs s = s\<lparr>lists := (lists s)[r := xs]\<rparr>"

definition set_dict :: "ref \<Rightarrow> (value \<times> value) list \<Rightarrow> state \<Rightarrow> state" where
  "set_dict r d s = s\<lparr>dicts := (dicts s)[r := d]\<rparr>"

definition alloc_list :: "value list \<Rightarrow> state \<Rightarrow> ref \<times> state" where
  "alloc_list xs s = (length (lists s), s\<lparr>lists := lists s @ [xs]\<rparr>)"

definition alloc_dict :: "(value \<times> value) list \<Rightarrow> state \<Rightarrow> ref \<times> state" where
  "alloc_dict d s = (length (dicts s), s\<lparr>dicts := dicts s @ [d]\<rparr>)"

definition alloc_instance :: "lox_class \<Rightarrow> state \<Rightarrow> ref \<times> state" where
  "alloc_instance c s =
     (length (instances s),
      s\<lparr>instances := instances s @ [\<lparr>klass = c, inst_fields = Map.empty\<rparr>]\<rparr>)"

text \<open>The identity of a newly created function, built-in function or class object.\<close>

definition new_id :: "state \<Rightarrow> oid \<times> state" where
  "new_id s = (next_id s, s\<lparr>next_id := Suc (next_id s)\<rparr>)"

subsection \<open>Dict keys\<close>

text \<open>
  A host dict finds a key by hash and \<open>==\<close>.  Lists and dicts are unhashable.  Numbers
  of different types are the same key when they are equal; a function, built-in function,
  class or instance is a key by identity.
\<close>

fun object_id :: "value \<Rightarrow> oid option" where
  "object_id (VFunction i f) = Some i"
| "object_id (VBuiltin i b) = Some i"
| "object_id (VClass i c) = Some i"
| "object_id _ = None"

fun hashable :: "value \<Rightarrow> bool" where
  "hashable (VList r) = False"
| "hashable (VDict r) = False"
| "hashable _ = True"

definition key_eq :: "host \<Rightarrow> value \<Rightarrow> value \<Rightarrow> bool" where
  "key_eq H a b =
     (case (as_num a, as_num b) of
        (Some x, Some y) \<Rightarrow> num_eq H x y
      | (Some x, None) \<Rightarrow> False
      | (None, Some y) \<Rightarrow> False
      | (None, None) \<Rightarrow>
          (case (object_id a, object_id b) of
             (Some i, Some j) \<Rightarrow> i = j
           | (Some i, None) \<Rightarrow> False
           | (None, Some j) \<Rightarrow> False
           | (None, None) \<Rightarrow> a = b))"

definition unhashable :: "value \<Rightarrow> exc" where
  "unhashable v = TypeError (''unhashable type: '' @ [CHR 0x27] @ type_name v @ [CHR 0x27])"

fun dict_lookup :: "host \<Rightarrow> (value \<times> value) list \<Rightarrow> value \<Rightarrow> value option" where
  "dict_lookup H [] k = None"
| "dict_lookup H ((k', v) # d) k = (if key_eq H k' k then Some v else dict_lookup H d k)"

text \<open>\<open>d[k] = v\<close>: an existing key keeps its place and its first spelling.\<close>

fun dict_store :: "host \<Rightarrow> (value \<times> value) list \<Rightarrow> value \<Rightarrow> value \<Rightarrow> (value \<times> value) list" where
  "dict_store H [] k v = [(k, v)]"
| "dict_store H ((k', v') # d) k v =
     (if key_eq H k' k then (k', v) # d else (k', v') # dict_store H d k v)"

section \<open>Conversion to text\<close>

fun join :: "string \<Rightarrow> string list \<Rightarrow> string" where
  "join sep [] = []"
| "join sep [x] = x"
| "join sep (x # y # xs) = x @ sep @ join sep (y # xs)"

text \<open>
  The host's \<open>str\<close> of a value that is not a list or dict.  \<open>Function\<close>,
  \<open>BuiltinFunction\<close> and \<open>LoxClass\<close> define \<open>__str__\<close>; \<open>LoxInstance\<close>
  does not.
\<close>

fun str_atom :: "host \<Rightarrow> value \<Rightarrow> string" where
  "str_atom H VNone = ''None''"
| "str_atom H (VBool b) = str_bool b"
| "str_atom H (VInt i) = str_int i"
| "str_atom H (VFloat f) = float_str H f"
| "str_atom H (VStr x) = x"
| "str_atom H (VFunction i (Function d c)) = ''<function '' @ decl_name d @ ''>''"
| "str_atom H (VBuiltin i b) = ''<native function>''"
| "str_atom H (VClass i (LoxClass n super ms)) = n"
| "str_atom H v = object_repr H v"

text \<open>
  The host's \<open>repr\<close>, which \<open>str\<close> of a list or dict applies to the elements.  A
  container met again inside itself prints as \<open>[...]\<close> or \<open>{...}\<close>.  The fuel
  bounds the nesting depth; \<open>None\<close> is fuel exhausted or a reference outside the heap.
\<close>

fun py_repr :: "host \<Rightarrow> nat \<Rightarrow> state \<Rightarrow> ref list \<Rightarrow> ref list \<Rightarrow> value \<Rightarrow> string option" where
  "py_repr H 0 s vl vd v = None"
| "py_repr H (Suc n) s vl vd (VList r) =
     (if r \<in> set vl then Some ''[...]''
      else (case list_at s r of
              None \<Rightarrow> None
            | Some xs \<Rightarrow>
                map_option (\<lambda>items. ''['' @ join '', '' items @ '']'')
                  (those (map (py_repr H n s (r # vl) vd) xs))))"
| "py_repr H (Suc n) s vl vd (VDict r) =
     (if r \<in> set vd then Some ''{...}''
      else (case dict_at s r of
              None \<Rightarrow> None
            | Some d \<Rightarrow>
                map_option (\<lambda>items. ''{'' @ join '', '' items @ ''}'')
                  (those (map (\<lambda>(k, v).
                            (case (py_repr H n s vl (r # vd) k, py_repr H n s vl (r # vd) v) of
                               (Some a, Some b) \<Rightarrow> Some (a @ '': '' @ b)
                             | _ \<Rightarrow> None)) d))))"
| "py_repr H (Suc n) s vl vd (VStr x) = Some (str_repr H x)"
| "py_repr H (Suc n) s vl vd VNone = Some ''None''"
| "py_repr H (Suc n) s vl vd (VBool b) = Some (str_bool b)"
| "py_repr H (Suc n) s vl vd (VInt i) = Some (str_int i)"
| "py_repr H (Suc n) s vl vd (VFloat f) = Some (float_str H f)"
| "py_repr H (Suc n) s vl vd v = Some (object_repr H v)"

text \<open>The host's \<open>str(value)\<close>.\<close>

fun py_str :: "host \<Rightarrow> nat \<Rightarrow> state \<Rightarrow> value \<Rightarrow> string option" where
  "py_str H n s (VList r) = py_repr H n s [] [] (VList r)"
| "py_str H n s (VDict r) = py_repr H n s [] [] (VDict r)"
| "py_str H n s v = Some (str_atom H v)"

definition strip_dot0 :: "string \<Rightarrow> string" where
  "strip_dot0 text =
     (if 2 \<le> length text \<and> drop (length text - 2) text = ''.0''
      then take (length text - 2) text else text)"

text \<open>
  \<open>Interpreter.stringify\<close>.  It recurses by itself through lists and dicts; the fuel
  bounds that recursion (the host bounds it by its recursion limit).
\<close>

fun stringify :: "host \<Rightarrow> nat \<Rightarrow> state \<Rightarrow> value \<Rightarrow> string option" where
  "stringify H 0 s v = None"
| "stringify H (Suc n) s VNone = Some ''nil''"
| "stringify H (Suc n) s (VBool b) = Some (if b then ''true'' else ''false'')"
| "stringify H (Suc n) s (VInt i) = Some (strip_dot0 (str_int i))"
| "stringify H (Suc n) s (VFloat f) = Some (strip_dot0 (float_str H f))"
| "stringify H (Suc n) s (VList r) =
     (case list_at s r of
        None \<Rightarrow> None
      | Some xs \<Rightarrow>
          map_option (\<lambda>items. ''['' @ join '', '' items @ '']'')
            (those (map (stringify H n s) xs)))"
| "stringify H (Suc n) s (VDict r) =
     (case dict_at s r of
        None \<Rightarrow> None
      | Some d \<Rightarrow>
          map_option (\<lambda>items. ''{'' @ join '', '' items @ ''}'')
            (those (map (\<lambda>(k, v).
                      (case (stringify H n s k, stringify H n s v) of
                         (Some a, Some b) \<Rightarrow> Some (a @ '': '' @ b)
                       | _ \<Rightarrow> None)) d)))"
| "stringify H (Suc n) s v = Some (str_atom H v)"

section \<open>Truthiness\<close>

text \<open>\<open>Interpreter.is_truthy\<close>; \<open>None\<close> only for a reference outside the heap.\<close>

fun is_truthy :: "host \<Rightarrow> state \<Rightarrow> value \<Rightarrow> bool option" where
  "is_truthy H s VNone = Some False"
| "is_truthy H s (VBool b) = Some b"
| "is_truthy H s (VInt i) = Some (i \<noteq> 0)"
| "is_truthy H s (VFloat f) = Some (\<not> float_eq H f (float_of_int H 0))"
| "is_truthy H s (VList r) = map_option (\<lambda>xs. 0 < length xs) (list_at s r)"
| "is_truthy H s (VDict r) = map_option (\<lambda>d. 0 < length d) (dict_at s r)"
| "is_truthy H s (VStr x) = Some (0 < length x)"
| "is_truthy H s v = Some True"

section \<open>Indexing\<close>

text \<open>
  \<open>visit_index_expr\<close> once the object and the index are evaluated.  The result is
  \<open>None\<close> only for a reference outside the heap.
\<close>

definition index_value :: "host \<Rightarrow> value \<Rightarrow> value \<Rightarrow> state \<Rightarrow> (exc + value) option" where
  "index_value H obj index s =
     (case obj of
        VList r \<Rightarrow>
          (case list_at s r of
             None \<Rightarrow> None
           | Some xs \<Rightarrow>
               (case as_int index of
                  None \<Rightarrow> Some (Inl (LoxRuntimeError ''List indices must be integers.''))
                | Some i \<Rightarrow>
                    if i < 0 \<or> i \<ge> int (length xs)
                    then Some (Inl (LoxRuntimeError (''List index out of range: '' @ str_atom H index)))
                    else Some (Inr (xs ! nat i))))
      | VDict r \<Rightarrow>
          (case dict_at s r of
             None \<Rightarrow> None
           | Some d \<Rightarrow>
               if \<not> hashable index then Some (Inl (unhashable index))
               else (case dict_lookup H d index of
                       None \<Rightarrow> Some (Inl (LoxRuntimeError
                                 (''Key not found in dictionary: '' @ str_atom H index)))
                     | Some v \<Rightarrow> Some (Inr v)))
      | VStr x \<Rightarrow>
          (case as_int index of
             None \<Rightarrow> Some (Inl (LoxRuntimeError ''String indices must be integers.''))
           | Some i \<Rightarrow>
               if i < 0 \<or> i \<ge> int (length x)
               then Some (Inl (LoxRuntimeError (''String index out of range: '' @ str_atom H index)))
               else Some (Inr (VStr [x ! nat i])))
      | _ \<Rightarrow> Some (Inl (LoxRuntimeError (''Cannot index into type '' @ type_name obj))))"

text \<open>\<open>visit_index_assign_expr\<close> once object, index and value are evaluated.\<close>

definition index_assign ::
  "host \<Rightarrow> value \<Rightarrow> value \<Rightarrow> value \<Rightarrow> state \<Rightarrow> ((exc + value) \<times> state) option" where
  "index_assign H obj index v s =
     (case obj of
        VList r \<Rightarrow>
          (case list_at s r of
             None \<Rightarrow> None
           | Some xs \<Rightarrow>
               (case as_int index of
                  None \<Rightarrow> Some (Inl (LoxRuntimeError ''List indices must be integers.''), s)
                | Some i \<Rightarrow>
                    if i < 0 \<or> i \<ge> int (length xs)
                    then Some (Inl (LoxRuntimeError
                                 (''List index out of range: '' @ str_atom H index)), s)
                    else Some (Inr v, set_list r (xs[nat i := v]) s)))
      | VDict r \<Rightarrow>
          (case dict_at s r of
             None \<Rightarrow> None
           | Some d \<Rightarrow>
               if \<not> hashable index then Some (Inl (unhashable index), s)
               else Some (Inr v, set_dict r (dict_store H d index v) s))
      | _ \<Rightarrow> Some (Inl (LoxRuntimeError
                     (''Cannot assign to index of type '' @ type_name obj)), s))"

section \<open>Built-in functions\<close>

text \<open>
  \<open>BuiltinFunction.call\<close>, that is \<open>self.fn(arguments)\<close>, for the three functions of
  \<open>define_globals\<close> and the two lambdas of \<open>visit_get_expr\<close>.
\<close>

fun call_builtin :: "host_fn \<Rightarrow> value list \<Rightarrow> state \<Rightarrow> ((exc + value) \<times> state) option" where
  "call_builtin Append args s =
     (case args of
        [VList r, x] \<Rightarrow>
          (case list_at s r of
             None \<Rightarrow> None
           | Some xs \<Rightarrow> Some (Inr (VList r), set_list r (xs @ [x]) s))
      | _ \<Rightarrow> Some (Inl (LoxRuntimeError ''append expects a list followed by a value''), s))"
| "call_builtin Pop args s =
     (case args of
        [VList r] \<Rightarrow>
          (case list_at s r of
             None \<Rightarrow> None
           | Some xs \<Rightarrow>
               if xs = [] then Some (Inl (LoxRuntimeError ''pop expects a non-empty list''), s)
               else Some (Inr (last xs), set_list r (butlast xs) s))
      | _ \<Rightarrow> Some (Inl (LoxRuntimeError ''pop expects a non-empty list''), s))"
| "call_builtin Length args s =
     (case args of
        [VList r] \<Rightarrow> map_option (\<lambda>xs. (Inr (VInt (int (length xs))), s)) (list_at s r)
      | [VDict r] \<Rightarrow> map_option (\<lambda>d. (Inr (VInt (int (length d))), s)) (dict_at s r)
      | [VStr x] \<Rightarrow> Some (Inr (VInt (int (length x))), s)
      | _ \<Rightarrow> Some (Inl (LoxRuntimeError ''length expects a list, dictionary, or string''), s))"
| "call_builtin (ListAppend r) args s =
     (case args of
        [] \<Rightarrow> Some (Inl (IndexError ''list index out of range''), s)
      | x # rest \<Rightarrow>
          (case list_at s r of
             None \<Rightarrow> None
           | Some xs \<Rightarrow> Some (Inr VNone, set_list r (xs @ [x]) s)))"
| "call_builtin (ListPop r) args s =
     (case list_at s r of
        None \<Rightarrow> None
      | Some xs \<Rightarrow>
          if xs = [] then Some (Inr VNone, s)
          else Some (Inr (last xs), set_list r (butlast xs) s))"

text \<open>The globals that \<open>define_globals\<close> installs: three new objects.\<close>

definition define_globals :: "state \<Rightarrow> state" where
  "define_globals s =
     (env_define 0 ''length'' (VBuiltin (next_id s + 2) (BuiltinFunction 1 Length))
        (env_define 0 ''pop'' (VBuiltin (next_id s + 1) (BuiltinFunction 1 Pop))
          (env_define 0 ''append'' (VBuiltin (next_id s) (BuiltinFunction 2 Append)) s)))
       \<lparr>next_id := next_id s + 3\<rparr>"

definition init_state :: "string list \<Rightarrow> state" where
  "init_state inp = define_globals (empty_state inp)"

section \<open>Operators\<close>

text \<open>The host's \<open><\<close> on strings: lexicographic on the character codes.\<close>

fun str_lt :: "string \<Rightarrow> string \<Rightarrow> bool" where
  "str_lt [] [] = False"
| "str_lt [] (y # ys) = True"
| "str_lt (x # xs) [] = False"
| "str_lt (x # xs) (y # ys) =
     ((of_char x :: nat) < of_char y \<or> (x = y \<and> str_lt xs ys))"

text \<open>
  The host's \<open>a == b\<close>.  Numbers compare across their types; lists and dicts compare
  by content, an element that is the same object counting as equal; everything else
  compares by identity.  The fuel bounds the nesting depth.
\<close>

fun py_eq :: "host \<Rightarrow> nat \<Rightarrow> state \<Rightarrow> value \<Rightarrow> value \<Rightarrow> bool option" where
  "py_eq H 0 s a b = None"
| "py_eq H (Suc n) s a b =
     (case (a, b) of
        (VList r, VList q) \<Rightarrow>
          if r = q then Some True
          else (case (list_at s r, list_at s q) of
                  (Some xs, Some ys) \<Rightarrow>
                    if length xs \<noteq> length ys then Some False
                    else map_option (list_all id)
                           (those (map (\<lambda>(x, y). py_eq H n s x y) (zip xs ys)))
                | _ \<Rightarrow> None)
      | (VDict r, VDict q) \<Rightarrow>
          if r = q then Some True
          else (case (dict_at s r, dict_at s q) of
                  (Some d, Some e) \<Rightarrow>
                    if length d \<noteq> length e then Some False
                    else map_option (list_all id)
                           (those (map (\<lambda>(k, v).
                                     (case dict_lookup H e k of
                                        None \<Rightarrow> Some False
                                      | Some w \<Rightarrow> py_eq H n s v w)) d))
                | _ \<Rightarrow> None)
      | _ \<Rightarrow> Some (key_eq H a b))"

text \<open>\<open>Interpreter.is_equal\<close>.\<close>

definition is_equal :: "host \<Rightarrow> nat \<Rightarrow> state \<Rightarrow> value \<Rightarrow> value \<Rightarrow> bool option" where
  "is_equal H n s a b =
     (if a = VNone \<and> b = VNone then Some True
      else if a = VNone then Some False
      else py_eq H n s a b)"

definition operands_must_be_numbers :: "value \<Rightarrow> value \<Rightarrow> exc" where
  "operands_must_be_numbers l r =
     LoxRuntimeError (''Operands must be numbers: '' @ type_name l @ '', '' @ type_name r)"

definition cannot_compare :: "value \<Rightarrow> value \<Rightarrow> exc" where
  "cannot_compare l r =
     LoxRuntimeError (''Cannot compare '' @ type_name l @ '' and '' @ type_name r)"

text \<open>The host's arithmetic on two numbers.\<close>

fun num_sub :: "host \<Rightarrow> num \<Rightarrow> num \<Rightarrow> value" where
  "num_sub H (NInt i) (NInt j) = VInt (i - j)"
| "num_sub H a b = VFloat (float_sub H (to_float H a) (to_float H b))"

fun num_add :: "host \<Rightarrow> num \<Rightarrow> num \<Rightarrow> value" where
  "num_add H (NInt i) (NInt j) = VInt (i + j)"
| "num_add H a b = VFloat (float_add H (to_float H a) (to_float H b))"

fun num_mul :: "host \<Rightarrow> num \<Rightarrow> num \<Rightarrow> value" where
  "num_mul H (NInt i) (NInt j) = VInt (i * j)"
| "num_mul H a b = VFloat (float_mul H (to_float H a) (to_float H b))"

fun num_truediv :: "host \<Rightarrow> num \<Rightarrow> num \<Rightarrow> exc + value" where
  "num_truediv H (NInt i) (NInt j) = map_sum id VFloat (int_truediv H i j)"
| "num_truediv H a b = Inr (VFloat (float_truediv H (to_float H a) (to_float H b)))"

fun num_mod :: "host \<Rightarrow> num \<Rightarrow> num \<Rightarrow> value" where
  "num_mod H (NInt i) (NInt j) = VInt (i mod j)"
| "num_mod H a b = VFloat (float_mod H (to_float H a) (to_float H b))"

fun num_pow :: "host \<Rightarrow> num \<Rightarrow> num \<Rightarrow> exc + value" where
  "num_pow H (NInt i) (NInt j) =
     (if 0 \<le> j then Inr (VInt (i ^ nat j))
      else map_sum id VFloat (float_pow H (float_of_int H i) (float_of_int H j)))"
| "num_pow H a b = map_sum id VFloat (float_pow H (to_float H a) (to_float H b))"

text \<open>The comparison operators, after \<open>check_comparable_operands\<close>.\<close>

definition compare_values ::
  "host \<Rightarrow> (num \<Rightarrow> num \<Rightarrow> bool) \<Rightarrow> (string \<Rightarrow> string \<Rightarrow> bool) \<Rightarrow> value \<Rightarrow> value \<Rightarrow> exc + value" where
  "compare_values H nop sop l r =
     (case (as_num l, as_num r) of
        (Some a, Some b) \<Rightarrow> Inr (VBool (nop a b))
      | _ \<Rightarrow> (case (l, r) of
                 (VStr x, VStr y) \<Rightarrow> Inr (VBool (sop x y))
               | _ \<Rightarrow> Inl (cannot_compare l r)))"

text \<open>The \<open>PLUS\<close> branch of \<open>visit_binary_expr\<close>.\<close>

definition plus_values :: "host \<Rightarrow> nat \<Rightarrow> value \<Rightarrow> value \<Rightarrow> state \<Rightarrow> ((exc + value) \<times> state) option" where
  "plus_values H n l r s =
     (case (as_num l, as_num r) of
        (Some a, Some b) \<Rightarrow> Some (Inr (num_add H a b), s)
      | _ \<Rightarrow>
        (case (l, r) of
           (VStr x, VStr y) \<Rightarrow> Some (Inr (VStr (x @ y)), s)
         | (VList p, VList q) \<Rightarrow>
             (case (list_at s p, list_at s q) of
                (Some xs, Some ys) \<Rightarrow>
                  (case alloc_list (xs @ ys) s of (t, s') \<Rightarrow> Some (Inr (VList t), s'))
              | _ \<Rightarrow> None)
         | (VStr x, _) \<Rightarrow> map_option (\<lambda>y. (Inr (VStr (x @ y)), s)) (py_str H n s r)
         | (_, VStr y) \<Rightarrow> map_option (\<lambda>x. (Inr (VStr (x @ y)), s)) (py_str H n s l)
         | _ \<Rightarrow> Some (Inl (LoxRuntimeError
                    (''Operands must be two numbers, two strings, or two lists: ''
                     @ type_name l @ '', '' @ type_name r)), s)))"

text \<open>The \<open>STAR\<close> branch: product of numbers, or repetition of a string or list.\<close>

definition star_values :: "host \<Rightarrow> value \<Rightarrow> value \<Rightarrow> state \<Rightarrow> ((exc + value) \<times> state) option" where
  "star_values H l r s =
     (case (as_num l, as_num r) of
        (Some a, Some b) \<Rightarrow> Some (Inr (num_mul H a b), s)
      | _ \<Rightarrow>
        (case (l, as_int r) of
           (VStr x, Some k) \<Rightarrow> Some (Inr (VStr (concat (replicate (nat k) x))), s)
         | (VList p, Some k) \<Rightarrow>
             (case list_at s p of
                Some xs \<Rightarrow>
                  (case alloc_list (concat (replicate (nat k) xs)) s of
                     (t, s') \<Rightarrow> Some (Inr (VList t), s'))
              | None \<Rightarrow> None)
         | _ \<Rightarrow> Some (Inl (LoxRuntimeError
                    (''Operands must be numbers or string/list and integer: ''
                     @ type_name l @ '', '' @ type_name r)), s)))"

text \<open>\<open>visit_binary_expr\<close> once both operands are evaluated.\<close>

definition binary_op ::
  "host \<Rightarrow> nat \<Rightarrow> token_type \<Rightarrow> value \<Rightarrow> value \<Rightarrow> state \<Rightarrow> ((exc + value) \<times> state) option" where
  "binary_op H n op l r s =
     (if op = MINUS then
        (case (as_num l, as_num r) of
           (Some a, Some b) \<Rightarrow> Some (Inr (num_sub H a b), s)
         | _ \<Rightarrow> Some (Inl (operands_must_be_numbers l r), s))
      else if op = SLASH then
        (case (as_num l, as_num r) of
           (Some a, Some b) \<Rightarrow>
             if num_eq H b (NInt 0) then Some (Inl (LoxRuntimeError ''Division by zero.''), s)
             else Some (num_truediv H a b, s)
         | _ \<Rightarrow> Some (Inl (operands_must_be_numbers l r), s))
      else if op = STAR then star_values H l r s
      else if op = PLUS then plus_values H n l r s
      else if op = MODULO then
        (case (as_num l, as_num r) of
           (Some a, Some b) \<Rightarrow>
             if num_eq H b (NInt 0) then Some (Inl (LoxRuntimeError ''Modulo by zero.''), s)
             else Some (Inr (num_mod H a b), s)
         | _ \<Rightarrow> Some (Inl (operands_must_be_numbers l r), s))
      else if op = EXPODENT then
        (case (as_num l, as_num r) of
           (Some a, Some b) \<Rightarrow> Some (num_pow H a b, s)
         | _ \<Rightarrow> Some (Inl (operands_must_be_numbers l r), s))
      else if op = GREATER then
        Some (compare_values H (\<lambda>a b. num_lt H b a) (\<lambda>x y. str_lt y x) l r, s)
      else if op = GREATER_EQUAL then
        Some (compare_values H (\<lambda>a b. num_lt H b a \<or> num_eq H a b)
                (\<lambda>x y. \<not> str_lt x y) l r, s)
      else if op = LESS then
        Some (compare_values H (num_lt H) str_lt l r, s)
      else if op = LESS_EQUAL then
        Some (compare_values H (\<lambda>a b. num_lt H a b \<or> num_eq H a b)
                (\<lambda>x y. \<not> str_lt y x) l r, s)
      else if op = BANG_EQUAL then
        map_option (\<lambda>b. (Inr (VBool (\<not> b)), s)) (is_equal H n s l r)
      else if op = EQUAL_EQUAL then
        map_option (\<lambda>b. (Inr (VBool b), s)) (is_equal H n s l r)
      else Some (Inr VNone, s))"

section \<open>Instances and properties\<close>

text \<open>
  The outcome of running a piece of the interpreter: \<open>None\<close> when the fuel runs out (or
  a reference lies outside the heap), otherwise the value returned or the exception raised,
  with the state reached.  The state is kept when an exception is raised, as the host keeps
  every mutation made before the \<open>raise\<close>.
\<close>

type_synonym 'a res = "((exc + 'a) \<times> state) option"

definition bnd :: "'a res \<Rightarrow> ('a \<Rightarrow> state \<Rightarrow> 'b res) \<Rightarrow> 'b res" where
  "bnd m f = (case m of
                None \<Rightarrow> None
              | Some (Inl e, s) \<Rightarrow> Some (Inl e, s)
              | Some (Inr v, s) \<Rightarrow> f v s)"

definition raise :: "exc \<Rightarrow> state \<Rightarrow> 'a res" where
  "raise e s = Some (Inl e, s)"

definition ret :: "'a \<Rightarrow> state \<Rightarrow> 'a res" where
  "ret v s = Some (Inr v, s)"

text \<open>\<open>Function.bind\<close>: a new environment under the closure, with \<open>this\<close> defined.\<close>

definition bind :: "func \<Rightarrow> value \<Rightarrow> state \<Rightarrow> func \<times> state" where
  "bind f inst s =
     (case f of Function d c \<Rightarrow>
        (case alloc_env (Some c) s of (r, s') \<Rightarrow>
           (Function d r, env_define r ''this'' inst s')))"

definition undefined_property :: "string \<Rightarrow> string" where
  "undefined_property name = ''Undefined property '' @ [CHR 0x27] @ name @ [CHR 0x27] @ ''.''"

text \<open>
  \<open>LoxInstance.get\<close>.  The \<open>raise RuntimeError(...)\<close> at its end is in
  parser/runtime.py, where \<open>RuntimeError\<close> is the host's built-in class.
\<close>

definition instance_get :: "ref \<Rightarrow> string \<Rightarrow> state \<Rightarrow> value res" where
  "instance_get r name s =
     (case instance_at s r of
        None \<Rightarrow> None
      | Some inst \<Rightarrow>
          (case inst_fields inst name of
             Some v \<Rightarrow> ret v s
           | None \<Rightarrow>
               (case find_method (klass inst) name of
                  Some m \<Rightarrow>
                    (case bind m (VInstance r) s of
                       (f, s1) \<Rightarrow> (case new_id s1 of (i, s2) \<Rightarrow> ret (VFunction i f) s2))
                | None \<Rightarrow> raise (PyRuntimeError (undefined_property name)) s)))"

text \<open>\<open>LoxInstance.set\<close>.\<close>

definition instance_set :: "ref \<Rightarrow> string \<Rightarrow> value \<Rightarrow> state \<Rightarrow> state option" where
  "instance_set r name v s =
     (case instance_at s r of
        None \<Rightarrow> None
      | Some inst \<Rightarrow>
          Some (s\<lparr>instances := (instances s)[r := inst\<lparr>inst_fields := (inst_fields inst)(name \<mapsto> v)\<rparr>]\<rparr>))"

text \<open>
  \<open>visit_get_expr\<close> once the object is evaluated (the second definition of that name in
  the class body, which replaces the first).
\<close>

definition get_property :: "value \<Rightarrow> string \<Rightarrow> state \<Rightarrow> value res" where
  "get_property obj name s =
     (case obj of
        VList r \<Rightarrow>
          if name = ''append'' then
            (case new_id s of (i, s1) \<Rightarrow> ret (VBuiltin i (BuiltinFunction 1 (ListAppend r))) s1)
          else if name = ''pop'' then
            (case new_id s of (i, s1) \<Rightarrow> ret (VBuiltin i (BuiltinFunction 0 (ListPop r))) s1)
          else if name = ''length'' then
            (case list_at s r of None \<Rightarrow> None | Some xs \<Rightarrow> ret (VInt (int (length xs))) s)
          else raise (LoxRuntimeError (''No such property '' @ [CHR 0x27] @ name @ [CHR 0x27]
                                       @ '' on '' @ type_name obj @ ''.'')) s
      | VDict r \<Rightarrow>
          if name = ''length'' then
            (case dict_at s r of None \<Rightarrow> None | Some d \<Rightarrow> ret (VInt (int (length d))) s)
          else raise (LoxRuntimeError (''No such property '' @ [CHR 0x27] @ name @ [CHR 0x27]
                                       @ '' on '' @ type_name obj @ ''.'')) s
      | VStr x \<Rightarrow>
          if name = ''length'' then ret (VInt (int (length x))) s
          else raise (LoxRuntimeError (''No such property '' @ [CHR 0x27] @ name @ [CHR 0x27]
                                       @ '' on '' @ type_name obj @ ''.'')) s
      | VInstance r \<Rightarrow> instance_get r name s
      | _ \<Rightarrow> raise (LoxRuntimeError (''No such property '' @ [CHR 0x27] @ name @ [CHR 0x27]
                                     @ '' on '' @ type_name obj @ ''.'')) s)"

text \<open>\<open>visit_set_expr\<close> once object and value are evaluated.\<close>

definition set_property :: "value \<Rightarrow> string \<Rightarrow> value \<Rightarrow> state \<Rightarrow> value res" where
  "set_property obj name v s =
     (case obj of
        VInstance r \<Rightarrow> (case instance_set r name v s of None \<Rightarrow> None | Some s' \<Rightarrow> ret v s')
      | _ \<Rightarrow> raise (LoxRuntimeError ''Only instances have fields.'') s)"

text \<open>
  The parameter loop of \<open>Function.call\<close>: \<open>arguments[i]\<close> for each parameter index;
  the host raises \<open>IndexError\<close> when the arguments run out first.
\<close>

fun bind_params :: "ref \<Rightarrow> string list \<Rightarrow> value list \<Rightarrow> state \<Rightarrow> unit res" where
  "bind_params r [] args s = ret () s"
| "bind_params r (p # ps) [] s = raise (IndexError ''list index out of range'') s"
| "bind_params r (p # ps) (a # as) s = bind_params r ps as (env_define r p a s)"

text \<open>The method table of \<open>visit_class_stmt\<close>: \<open>methods[name] = function\<close>.\<close>

fun methods_put :: "string \<Rightarrow> func \<Rightarrow> (string \<times> func) list \<Rightarrow> (string \<times> func) list" where
  "methods_put name f [] = [(name, f)]"
| "methods_put name f ((k, g) # ms) =
     (if k = name then (k, f) # ms else (k, g) # methods_put name f ms)"

definition collect_methods :: "stmt list \<Rightarrow> ref \<Rightarrow> (string \<times> func) list" where
  "collect_methods ms env = fold (\<lambda>m tab. methods_put (decl_name m) (Function m env) tab) ms []"

text \<open>
  \<open>str.isdigit\<close> and the host's \<open>int\<close> of a digit string, on ASCII text (the
  host's \<open>isdigit\<close> also accepts digits outside ASCII, which are not represented).
\<close>

definition is_digit :: "char \<Rightarrow> bool" where
  "is_digit c = (48 \<le> (of_char c :: nat) \<and> (of_char c :: nat) \<le> 57)"

definition isdigit :: "string \<Rightarrow> bool" where
  "isdigit x = (x \<noteq> [] \<and> list_all is_digit x)"

definition int_of_digits :: "string \<Rightarrow> int" where
  "int_of_digits x = foldl (\<lambda>acc c. 10 * acc + (int (of_char c) - 48)) 0 x"

text \<open>\<open>user_input.replace('.', '', 1)\<close> and \<open>user_input.count('.')\<close>.\<close>

fun remove_first_dot :: "string \<Rightarrow> string" where
  "remove_first_dot [] = []"
| "remove_first_dot (c # cs) = (if c = CHR ''.'' then cs else c # remove_first_dot cs)"

definition parse_input :: "host \<Rightarrow> string \<Rightarrow> value" where
  "parse_input H x =
     (if isdigit x then VInt (int_of_digits x)
      else if isdigit (remove_first_dot x) \<and> count_list x (CHR ''.'') = 1
      then VFloat (float_of_str H x)
      else VStr x)"

fun literal_value :: "literal \<Rightarrow> value" where
  "literal_value LNone = VNone"
| "literal_value (LBool b) = VBool b"
| "literal_value (LInt i) = VInt i"
| "literal_value (LFloat f) = VFloat f"
| "literal_value (LStr x) = VStr x"

section \<open>The evaluator\<close>

text \<open>
  What a \<open>for ... in\<close> loop of the host walks: a list object, read again at each step
  (so that appending to it during the loop is seen), or a sequence fixed at loop entry (the
  characters of a string, the keys of a dict copied by \<open>list(iterable.keys())\<close>).
\<close>

datatype iter_src = IterList ref | IterItems "value list"

fun iter_next :: "state \<Rightarrow> iter_src \<Rightarrow> nat \<Rightarrow> value option option" where
  "iter_next s (IterList r) i =
     (case list_at s r of
        None \<Rightarrow> None
      | Some xs \<Rightarrow> Some (if i < length xs then Some (xs ! i) else None))"
| "iter_next s (IterItems xs) i = Some (if i < length xs then Some (xs ! i) else None)"

definition arity_mismatch :: "nat \<Rightarrow> nat \<Rightarrow> exc" where
  "arity_mismatch expected got =
     LoxRuntimeError (''Expected '' @ str_int (int expected) @ '' arguments but got ''
                      @ str_int (int got) @ ''.'')"

definition newline :: char where
  "newline = CHR 0x0A"


text \<open>
  The loops and calls of the interpreter, each taking as \<open>ev\<close> and \<open>ex\<close> the
  interpreter's \<open>evaluate\<close> and \<open>execute\<close> that the source calls back into.
\<close>

text \<open>The loop that evaluates call arguments and list elements, left to right.\<close>

fun evaluate_list :: "(expr \<Rightarrow> state \<Rightarrow> value res) \<Rightarrow> expr list \<Rightarrow> state \<Rightarrow> value list res" where
  "evaluate_list ev [] s = ret [] s"
| "evaluate_list ev (e # es) s =
     bnd (ev e s) (\<lambda>v s1.
     bnd (evaluate_list ev es s1) (\<lambda>vs s2. ret (v # vs) s2))"

text \<open>
  The loop of \<open>visit_dictionary_expr\<close>: key, then value, then the check of the key.
  \<open>expr.values[i]\<close> raises \<open>IndexError\<close> when the values run out first.
\<close>

fun evaluate_pairs ::
  "host \<Rightarrow> (expr \<Rightarrow> state \<Rightarrow> value res) \<Rightarrow> expr list \<Rightarrow> expr list \<Rightarrow> (value \<times> value) list
     \<Rightarrow> state \<Rightarrow> (value \<times> value) list res" where
  "evaluate_pairs H ev [] vs acc s = ret acc s"
| "evaluate_pairs H ev (k # ks) [] acc s =
     bnd (ev k s) (\<lambda>kv s1. raise (IndexError ''list index out of range'') s1)"
| "evaluate_pairs H ev (k # ks) (v # vs) acc s =
     bnd (ev k s) (\<lambda>kv s1.
     bnd (ev v s1) (\<lambda>vv s2.
       if \<not> hashable kv
       then raise (LoxRuntimeError
                     ''Dictionary keys must be immutable (strings, numbers, booleans).'') s2
       else evaluate_pairs H ev ks vs (dict_store H acc kv vv) s2))"

text \<open>The statement loop inside \<open>execute_block\<close> (a statement returns \<open>None\<close>).\<close>

fun execute_stmts :: "(stmt \<Rightarrow> state \<Rightarrow> value res) \<Rightarrow> stmt list \<Rightarrow> state \<Rightarrow> value res" where
  "execute_stmts ex [] s = ret VNone s"
| "execute_stmts ex (st # sts) s = bnd (ex st s) (\<lambda>u s1. execute_stmts ex sts s1)"

text \<open>
  \<open>Interpreter.execute_block\<close>: \<open>previous = self.environment\<close>, then under
  \<open>try\<close> the register is set and the statements run, and \<open>finally\<close> puts
  \<open>previous\<close> back, whether the statements completed or raised.
\<close>

definition execute_block ::
  "(stmt \<Rightarrow> state \<Rightarrow> value res) \<Rightarrow> stmt list \<Rightarrow> ref \<Rightarrow> state \<Rightarrow> value res" where
  "execute_block ex sts env s =
     (case execute_stmts ex sts (s\<lparr>environment := env\<rparr>) of
        None \<Rightarrow> None
      | Some (r, s1) \<Rightarrow> Some (r, s1\<lparr>environment := environment s\<rparr>))"

text \<open>\<open>visit_block_stmt\<close>: \<open>execute_block(stmt.statements, Environment(self.environment))\<close>.\<close>

definition visit_block_stmt ::
  "(stmt \<Rightarrow> state \<Rightarrow> value res) \<Rightarrow> stmt list \<Rightarrow> state \<Rightarrow> value res" where
  "visit_block_stmt ex sts s =
     (case alloc_env (Some (environment s)) s of (r, s1) \<Rightarrow> execute_block ex sts r s1)"

text \<open>
  \<open>Function.call\<close>: a new environment under the closure, the parameters defined in
  it, the body run as a block; \<open>ReturnException\<close> is caught and gives the result.
\<close>

definition call_function ::
  "(stmt \<Rightarrow> state \<Rightarrow> value res) \<Rightarrow> func \<Rightarrow> value list \<Rightarrow> state \<Rightarrow> value res" where
  "call_function ex f args s =
     (case f of Function d c \<Rightarrow>
        (case alloc_env (Some c) s of
           (r, s1) \<Rightarrow>
             bnd (bind_params r (params d) args s1) (\<lambda>u s2.
               (case execute_block ex (body d) r s2 of
                  None \<Rightarrow> None
                | Some (Inl (ReturnException v), s3) \<Rightarrow> ret v s3
                | Some (Inl e, s3) \<Rightarrow> raise e s3
                | Some (Inr u, s3) \<Rightarrow> ret VNone s3))))"

text \<open>\<open>LoxClass.call\<close>.\<close>

definition class_call ::
  "(stmt \<Rightarrow> state \<Rightarrow> value res) \<Rightarrow> lox_class \<Rightarrow> value list \<Rightarrow> state \<Rightarrow> value res" where
  "class_call ex c args s =
     (case alloc_instance c s of
        (r, s1) \<Rightarrow>
          (case find_method c ''init'' of
             None \<Rightarrow> ret (VInstance r) s1
           | Some initializer \<Rightarrow>
               (case bind initializer (VInstance r) s1 of
                  (f, s2) \<Rightarrow>
                    bnd (call_function ex f args s2) (\<lambda>v s3. ret (VInstance r) s3))))"

text \<open>\<open>callee.call(self, arguments)\<close>, by the class of the callee.\<close>

definition call_value ::
  "(stmt \<Rightarrow> state \<Rightarrow> value res) \<Rightarrow> value \<Rightarrow> value list \<Rightarrow> state \<Rightarrow> value res" where
  "call_value ex c args s =
     (case c of
        VFunction i f \<Rightarrow> call_function ex f args s
      | VBuiltin i b \<Rightarrow> (case b of BuiltinFunction k fn \<Rightarrow> call_builtin fn args s)
      | VClass i k \<Rightarrow> class_call ex k args s
      | _ \<Rightarrow> raise (no_attribute c ''call'') s)"

text \<open>
  \<open>visit_call_expr\<close> once the callee and the arguments are evaluated: the check that
  the callee has a \<open>call\<close>, the comparison with \<open>function.arity()\<close>, the call.
\<close>

definition visit_call ::
  "(stmt \<Rightarrow> state \<Rightarrow> value res) \<Rightarrow> value \<Rightarrow> value list \<Rightarrow> state \<Rightarrow> value res" where
  "visit_call ex c vs s =
     (if \<not> has_call c
      then raise (LoxRuntimeError (''Can only call functions and classes: '' @ type_name c)) s
      else (case arity c of
              Inl e \<Rightarrow> raise e s
            | Inr k \<Rightarrow>
                if length vs \<noteq> k then raise (arity_mismatch k (length vs)) s
                else call_value ex c vs s))"

text \<open>\<open>visit_new_expr\<close>; the bare \<open>except\<close> turns any failure of the lookup into
  the "Undefined class" error.\<close>

definition visit_new ::
  "(expr \<Rightarrow> state \<Rightarrow> value res) \<Rightarrow> (stmt \<Rightarrow> state \<Rightarrow> value res) \<Rightarrow> string \<Rightarrow> expr list
     \<Rightarrow> state \<Rightarrow> value res" where
  "visit_new ev ex cname args s =
     (case env_get (environment s) cname s of
        None \<Rightarrow> None
      | Some (Inl e) \<Rightarrow>
          raise (LoxRuntimeError
                   (''Undefined class '' @ [CHR 0x27] @ cname @ [CHR 0x27] @ ''.'')) s
      | Some (Inr k) \<Rightarrow>
          bnd (evaluate_list ev args s) (\<lambda>vs s1.
            if \<not> has_call k
            then raise (LoxRuntimeError
                          ([CHR 0x27] @ cname @ [CHR 0x27] @ '' is not a class.'')) s1
            else call_value ex k vs s1))"

text \<open>\<open>visit_unary_expr\<close> once the operand is evaluated.\<close>

definition unary_op :: "host \<Rightarrow> token_type \<Rightarrow> value \<Rightarrow> state \<Rightarrow> value res" where
  "unary_op H op v s =
     (if op = BANG then
        (case is_truthy H s v of None \<Rightarrow> None | Some b \<Rightarrow> ret (VBool (\<not> b)) s)
      else if op = MINUS then
        (case as_num v of
           Some (NInt i) \<Rightarrow> ret (VInt (- i)) s
         | Some (NFloat f) \<Rightarrow> ret (VFloat (float_neg H f)) s
         | None \<Rightarrow> raise (LoxRuntimeError (''Operand must be a number: '' @ type_name v)) s)
      else ret VNone s)"

text \<open>\<open>visit_variable_expr\<close> and \<open>visit_this_expr\<close>.\<close>

definition visit_variable :: "string \<Rightarrow> state \<Rightarrow> value res" where
  "visit_variable name s =
     (case lookup_variable name s of
        None \<Rightarrow> None
      | Some (Inl e) \<Rightarrow> raise e s
      | Some (Inr v) \<Rightarrow> ret v s)"

text \<open>
  \<open>visit_super_expr\<close>.  Its first statement reads \<open>self.locals\<close>; an
  \<open>Interpreter\<close> has the attributes \<open>globals\<close> and \<open>environment\<close> that
  \<open>__init__\<close> sets, and no other, so the read raises.  (Nor does \<open>Environment\<close>
  have the \<open>get_at\<close> of the next statement, nor does \<open>visit_class_stmt\<close> define
  a name \<open>super\<close>.)
\<close>

definition visit_super_expr :: "string \<Rightarrow> state \<Rightarrow> value res" where
  "visit_super_expr method s = raise (no_attribute_of ''Interpreter'' ''locals'') s"

text \<open>\<open>visit_print_stmt\<close> and \<open>visit_input_stmt\<close> once their expression is evaluated.\<close>

definition print_value :: "host \<Rightarrow> nat \<Rightarrow> value \<Rightarrow> state \<Rightarrow> value res" where
  "print_value H n v s =
     (case stringify H n s v of
        None \<Rightarrow> None
      | Some t \<Rightarrow> ret VNone (s\<lparr>stdout := stdout s @ t @ [newline]\<rparr>))"

definition read_input :: "host \<Rightarrow> string \<Rightarrow> string \<Rightarrow> state \<Rightarrow> value res" where
  "read_input H var prompt_text s =
     (case stdin s of
        [] \<Rightarrow> raise EOFError (s\<lparr>stdout := stdout s @ prompt_text\<rparr>)
      | line # rest \<Rightarrow>
          ret VNone (env_define (environment s) var (parse_input H line)
                       (s\<lparr>stdout := stdout s @ prompt_text, stdin := rest\<rparr>)))"

text \<open>\<open>visit_class_stmt\<close> after the superclass expression, if any, is evaluated.\<close>

definition declare_class :: "string \<Rightarrow> lox_class option \<Rightarrow> stmt list \<Rightarrow> state \<Rightarrow> value res" where
  "declare_class name superclass ms s =
     (case new_id s of
        (i, s1) \<Rightarrow>
          ret VNone (env_define (environment s1) name
                       (VClass i (LoxClass name superclass
                                    (collect_methods ms (environment s1)))) s1))"

text \<open>
  The interpreter proper.  One function, by recursion on a fuel argument that every
  visit of a node and every loop iteration spends: \<open>Evaluate\<close> is
  \<open>Interpreter.evaluate\<close>, \<open>Execute\<close> is \<open>Interpreter.execute\<close> (each
  dispatching to the \<open>visit_\<close> method of the node), \<open>WhileLoop\<close> and
  \<open>ForeachLoop\<close> are the loops of \<open>visit_while_stmt\<close> and
  \<open>visit_foreach_stmt\<close>.  The result \<open>None\<close> means that the fuel did not suffice.
  The host's own bound on the depth of recursion (its \<open>RecursionError\<close>) is not
  represented: a run that would exceed it has a result here for enough fuel.
\<close>

datatype task =
    Evaluate expr
  | Execute stmt
  | WhileLoop expr stmt
  | ForeachLoop string iter_src nat stmt

primrec run :: "host \<Rightarrow> nat \<Rightarrow> task \<Rightarrow> state \<Rightarrow> value res" where
  "run H 0 t s = None"
| "run H (Suc n) t s =
     (case t of
        Evaluate ex \<Rightarrow>
          (case ex of
             Binary l op r \<Rightarrow>
               bnd (run H n (Evaluate l) s) (\<lambda>lv s1.
               bnd (run H n (Evaluate r) s1) (\<lambda>rv s2. binary_op H n op lv rv s2))
           | Grouping e \<Rightarrow> run H n (Evaluate e) s
           | Literal l \<Rightarrow> ret (literal_value l) s
           | Unary op e \<Rightarrow> bnd (run H n (Evaluate e) s) (\<lambda>v s1. unary_op H op v s1)
           | Variable name \<Rightarrow> visit_variable name s
           | Assign name e \<Rightarrow>
               bnd (run H n (Evaluate e) s) (\<lambda>v s1.
                 (case assign_variable name v s1 of None \<Rightarrow> None | Some s2 \<Rightarrow> ret v s2))
           | Call callee args \<Rightarrow>
               bnd (run H n (Evaluate callee) s) (\<lambda>c s1.
               bnd (evaluate_list (\<lambda>e. run H n (Evaluate e)) args s1) (\<lambda>vs s2.
                 visit_call (\<lambda>st. run H n (Execute st)) c vs s2))
           | Get obj name \<Rightarrow>
               bnd (run H n (Evaluate obj) s) (\<lambda>ov s1. get_property ov name s1)
           | Set obj name e \<Rightarrow>
               bnd (run H n (Evaluate obj) s) (\<lambda>ov s1.
               bnd (run H n (Evaluate e) s1) (\<lambda>v s2. set_property ov name v s2))
           | ListExpr es \<Rightarrow>
               bnd (evaluate_list (\<lambda>e. run H n (Evaluate e)) es s) (\<lambda>vs s1.
                 (case alloc_list vs s1 of (r, s2) \<Rightarrow> ret (VList r) s2))
           | Index obj i \<Rightarrow>
               bnd (run H n (Evaluate obj) s) (\<lambda>ov s1.
               bnd (run H n (Evaluate i) s1) (\<lambda>iv s2.
                 (case index_value H ov iv s2 of
                    None \<Rightarrow> None
                  | Some (Inl e) \<Rightarrow> raise e s2
                  | Some (Inr v) \<Rightarrow> ret v s2)))
           | IndexAssign obj i e \<Rightarrow>
               bnd (run H n (Evaluate obj) s) (\<lambda>ov s1.
               bnd (run H n (Evaluate i) s1) (\<lambda>iv s2.
               bnd (run H n (Evaluate e) s2) (\<lambda>v s3. index_assign H ov iv v s3)))
           | Dictionary ks vs \<Rightarrow>
               bnd (evaluate_pairs H (\<lambda>e. run H n (Evaluate e)) ks vs [] s) (\<lambda>d s1.
                 (case alloc_dict d s1 of (r, s2) \<Rightarrow> ret (VDict r) s2))
           | Logical l op r \<Rightarrow>
               bnd (run H n (Evaluate l) s) (\<lambda>lv s1.
                 (case is_truthy H s1 lv of
                    None \<Rightarrow> None
                  | Some b \<Rightarrow>
                      if op = OR then (if b then ret lv s1 else run H n (Evaluate r) s1)
                      else (if \<not> b then ret lv s1 else run H n (Evaluate r) s1)))
           | This \<Rightarrow> visit_variable ''this'' s
           | Super method \<Rightarrow> visit_super_expr method s
           | New cname args \<Rightarrow>
               visit_new (\<lambda>e. run H n (Evaluate e)) (\<lambda>st. run H n (Execute st)) cname args s)
      | Execute st \<Rightarrow>
          (case st of
             ExpressionStmt e \<Rightarrow> bnd (run H n (Evaluate e) s) (\<lambda>v s1. ret VNone s1)
           | PrintStmt e \<Rightarrow> bnd (run H n (Evaluate e) s) (\<lambda>v s1. print_value H n v s1)
           | InputStmt var prompt \<Rightarrow>
               (case prompt of
                  None \<Rightarrow> read_input H var [] s
                | Some p \<Rightarrow>
                    bnd (run H n (Evaluate p) s) (\<lambda>v s1.
                      (case stringify H n s1 v of
                         None \<Rightarrow> None
                       | Some t \<Rightarrow> read_input H var t s1)))
           | BlockStmt sts \<Rightarrow> visit_block_stmt (\<lambda>st. run H n (Execute st)) sts s
           | IfStmt c t e \<Rightarrow>
               bnd (run H n (Evaluate c) s) (\<lambda>v s1.
                 (case is_truthy H s1 v of
                    None \<Rightarrow> None
                  | Some b \<Rightarrow>
                      if b then run H n (Execute t) s1
                      else (case e of
                              None \<Rightarrow> ret VNone s1
                            | Some st' \<Rightarrow> run H n (Execute st') s1)))
           | WhileStmt c b \<Rightarrow> run H n (WhileLoop c b) s
           | FunctionStmt name ps b \<Rightarrow>
               (case new_id s of
                  (i, s1) \<Rightarrow>
                    ret VNone (env_define (environment s1) name
                                 (VFunction i (Function (FunctionStmt name ps b)
                                                 (environment s1))) s1))
           | ReturnStmt v \<Rightarrow>
               (case v of
                  None \<Rightarrow> raise (ReturnException VNone) s
                | Some e \<Rightarrow>
                    bnd (run H n (Evaluate e) s) (\<lambda>x s1. raise (ReturnException x) s1))
           | ForEach var it b \<Rightarrow>
               bnd (run H n (Evaluate it) s) (\<lambda>v s1.
                 (case v of
                    VList r \<Rightarrow> run H n (ForeachLoop var (IterList r) 0 b) s1
                  | VStr x \<Rightarrow>
                      run H n (ForeachLoop var (IterItems (map (\<lambda>c. VStr [c]) x)) 0 b) s1
                  | VDict r \<Rightarrow>
                      (case dict_at s1 r of
                         None \<Rightarrow> None
                       | Some d \<Rightarrow> run H n (ForeachLoop var (IterItems (map fst d)) 0 b) s1)
                  | _ \<Rightarrow> raise (LoxRuntimeError
                                  ''Can only iterate over lists, strings, and dictionaries.'') s1))
           | Class name super ms \<Rightarrow>
               (case super of
                  None \<Rightarrow> declare_class name None ms (env_define (environment s) name VNone s)
                | Some e \<Rightarrow>
                    bnd (run H n (Evaluate e) (env_define (environment s) name VNone s))
                      (\<lambda>v s1.
                         (case v of
                            VClass i c \<Rightarrow> declare_class name (Some c) ms s1
                          | _ \<Rightarrow> raise (LoxRuntimeError ''Superclass must be a class.'') s1))))
      | WhileLoop c b \<Rightarrow>
          bnd (run H n (Evaluate c) s) (\<lambda>v s1.
            (case is_truthy H s1 v of
               None \<Rightarrow> None
             | Some t \<Rightarrow>
                 if t then bnd (run H n (Execute b) s1) (\<lambda>u s2. run H n (WhileLoop c b) s2)
                 else ret VNone s1))
      | ForeachLoop var src i b \<Rightarrow>
          (case iter_next s src i of
             None \<Rightarrow> None
           | Some None \<Rightarrow> ret VNone s
           | Some (Some v) \<Rightarrow>
               (case alloc_env (Some (environment s)) s of
                  (r, s1) \<Rightarrow>
                    (case run H n (Execute b) ((env_define r var v s1)\<lparr>environment := r\<rparr>) of
                       None \<Rightarrow> None
                     | Some (Inl e, s2) \<Rightarrow> Some (Inl e, s2\<lparr>environment := environment s\<rparr>)
                     | Some (Inr u, s2) \<Rightarrow>
                         run H n (ForeachLoop var src (Suc i) b)
                           (s2\<lparr>environment := environment s\<rparr>)))))"

declare run.simps(2) [simp del]

definition evaluate :: "host \<Rightarrow> nat \<Rightarrow> expr \<Rightarrow> state \<Rightarrow> value res" where
  "evaluate H n e s = run H n (Evaluate e) s"

definition execute :: "host \<Rightarrow> nat \<Rightarrow> stmt \<Rightarrow> state \<Rightarrow> value res" where
  "execute H n st s = run H n (Execute st) s"

text \<open>
  How a run of the interpreter ends: all statements done, a runtime error caught and
  reported by \<open>interpret\<close>, or an exception that \<open>interpret\<close> does not catch and
  that leaves it (and then the process, with a traceback: \<open>run\<close> and \<open>main\<close> in
  main.py catch \<open>FileNotFoundError\<close> only).
\<close>

datatype ending = Completed | Reported string | Uncaught exc

text \<open>
  \<open>Interpreter.interpret\<close>.  The list holds \<open>None\<close> where the parser gave up on a
  declaration; such entries are skipped.  \<open>except RuntimeError\<close> names the class of
  interpreter.py.
\<close>

fun interpret_loop :: "host \<Rightarrow> nat \<Rightarrow> stmt option list \<Rightarrow> state \<Rightarrow> value res" where
  "interpret_loop H n [] s = ret VNone s"
| "interpret_loop H n (None # sts) s = interpret_loop H n sts s"
| "interpret_loop H n (Some st # sts) s =
     bnd (execute H n st s) (\<lambda>u s1. interpret_loop H n sts s1)"

definition interpret_program :: "host \<Rightarrow> nat \<Rightarrow> stmt option list \<Rightarrow> state \<Rightarrow> (ending \<times> state) option" where
  "interpret_program H n statements s =
     (case interpret_loop H n statements s of
        None \<Rightarrow> None
      | Some (Inr u, s1) \<Rightarrow> Some (Completed, s1)
      | Some (Inl (LoxRuntimeError msg), s1) \<Rightarrow>
          Some (Reported msg, s1\<lparr>stdout := stdout s1 @ ''Runtime error: '' @ msg @ [newline]\<rparr>)
      | Some (Inl e, s1) \<Rightarrow> Some (Uncaught e, s1))"

section \<open>Example programs\<close>

text \<open>
  \<^verbatim>\<open>class A { f() { return 1; } }\<close>
  \<^verbatim>\<open>class B < A { f() { return super.f(); } }\<close>
  \<^verbatim>\<open>class C < B { f() { return super.f(); } }\<close>
  \<^verbatim>\<open>print new C().f();\<close>
\<close>

definition super_program :: "stmt option list" where
  "super_program =
     [Some (Class ''A'' None [FunctionStmt ''f'' [] [ReturnStmt (Some (Literal (LInt 1)))]]),
      Some (Class ''B'' (Some (Variable ''A''))
              [FunctionStmt ''f'' [] [ReturnStmt (Some (Call (Super ''f'') []))]]),
      Some (Class ''C'' (Some (Variable ''B''))
              [FunctionStmt ''f'' [] [ReturnStmt (Some (Call (Super ''f'') []))]]),
      Some (PrintStmt (Call (Get (New ''C'' []) ''f'') []))]"

text \<open>
  \<^verbatim>\<open>class A {}\<close>
  \<^verbatim>\<open>a = new A();\<close>
  \<^verbatim>\<open>print a.x;\<close>
  \<^verbatim>\<open>print 1;\<close>
\<close>

definition property_program :: "stmt option list" where
  "property_program =
     [Some (Class ''A'' None []),
      Some (ExpressionStmt (Assign ''a'' (New ''A'' []))),
      Some (PrintStmt (Get (Variable ''a'') ''x'')),
      Some (PrintStmt (Literal (LInt 1)))]"

text \<open>
  \<^verbatim>\<open>class A { init(a, b) {} }\<close>
  \<^verbatim>\<open>A(1);\<close>
  \<^verbatim>\<open>print 1;\<close>
\<close>

definition class_call_program :: "stmt option list" where
  "class_call_program =
     [Some (Class ''A'' None [FunctionStmt ''init'' [''a'', ''b''] []]),
      Some (ExpressionStmt (Call (Variable ''A'') [Literal (LInt 1)])),
      Some (PrintStmt (Literal (LInt 1)))]"

text \<open>
  \<^verbatim>\<open>function f(a, b) { print 7; }\<close>
  \<^verbatim>\<open>f(1);\<close>
  \<^verbatim>\<open>print 1;\<close>
\<close>

definition function_call_program :: "stmt option list" where
  "function_call_program =
     [Some (FunctionStmt ''f'' [''a'', ''b''] [PrintStmt (Literal (LInt 7))]),
      Some (ExpressionStmt (Call (Variable ''f'') [Literal (LInt 1)])),
      Some (PrintStmt (Literal (LInt 1)))]"

text \<open>
  \<^verbatim>\<open>function f() {}\<close>
  \<^verbatim>\<open>print "a" + f();\<close>
\<close>

definition concat_program :: "stmt option list" where
  "concat_program =
     [Some (FunctionStmt ''f'' [] []),
      Some (PrintStmt (Binary (Literal (LStr ''a'')) PLUS (Call (Variable ''f'') [])))]"

text \<open>
  \<^verbatim>\<open>m = {};\<close>
  \<^verbatim>\<open>m[[1]] = 2;\<close>
  \<^verbatim>\<open>print 1;\<close>
\<close>

definition dict_key_program :: "stmt option list" where
  "dict_key_program =
     [Some (ExpressionStmt (Assign ''m'' (Dictionary [] []))),
      Some (ExpressionStmt (IndexAssign (Variable ''m'') (ListExpr [Literal (LInt 1)])
                              (Literal (LInt 2)))),
      Some (PrintStmt (Literal (LInt 1)))]"

text \<open>
  \<^verbatim>\<open>xs = [10, 20];\<close>
  \<^verbatim>\<open>print xs[true];\<close>
\<close>

definition bool_index_program :: "stmt option list" where
  "bool_index_program =
     [Some (ExpressionStmt (Assign ''xs'' (ListExpr [Literal (LInt 10), Literal (LInt 20)]))),
      Some (PrintStmt (Index (Variable ''xs'') (Literal (LBool True))))]"

text \<open>
  \<^verbatim>\<open>class A { init(x) { this.x = x; return 5; } }\<close>
  \<^verbatim>\<open>class B < A {}\<close>, the value of \<open>B\<close> when \<open>A\<close> was declared in the global scope.
\<close>

definition init_A :: func where
  "init_A =
     Function (FunctionStmt ''init'' [''x'']
                 [ExpressionStmt (Set This ''x'' (Variable ''x'')),
                  ReturnStmt (Some (Literal (LInt 5)))]) 0"

definition class_A :: lox_class where
  "class_A = LoxClass ''A'' None [(''init'', init_A)]"

definition class_B :: lox_class where
  "class_B = LoxClass ''B'' (Some class_A) []"

text \<open>A state whose heap holds one empty list.\<close>

definition empty_list_state :: state where
  "empty_list_state = (init_state [])\<lparr>lists := [[]]\<rparr>"

text \<open>
  \<^verbatim>\<open>class A {}\<close>
  \<^verbatim>\<open>b = A;\<close>
  \<^verbatim>\<open>class A {}\<close>
  \<^verbatim>\<open>print A == b;\<close>
  \<^verbatim>\<open>print b == b;\<close>
\<close>

definition identity_program :: "stmt option list" where
  "identity_program =
     [Some (Class ''A'' None []),
      Some (ExpressionStmt (Assign ''b'' (Variable ''A''))),
      Some (Class ''A'' None []),
      Some (PrintStmt (Binary (Variable ''A'') EQUAL_EQUAL (Variable ''b''))),
      Some (PrintStmt (Binary (Variable ''b'') EQUAL_EQUAL (Variable ''b'')))]"

text \<open>
  A host for running the examples: they use no floating-point operation and no
  \<open>repr\<close>, and these fields hold placeholders.
\<close>

definition test_host :: host where
  "test_host =
     \<lparr>float_of_int = (\<lambda>i. 0), float_add = (\<lambda>a b. 0), float_sub = (\<lambda>a b. 0),
      float_mul = (\<lambda>a b. 0), float_truediv = (\<lambda>a b. 0), int_truediv = (\<lambda>i j. Inr 0),
      float_mod = (\<lambda>a b. 0), float_pow = (\<lambda>a b. Inr 0), float_neg = (\<lambda>a. 0),
      float_eq = (\<lambda>a b. a = b), float_lt = (\<lambda>a b. False), float_str = (\<lambda>a. ''0.0''),
      float_of_str = (\<lambda>x. 0), str_repr = (\<lambda>x. x), object_repr = (\<lambda>v. ''<object>'')\<rparr>"

text \<open>
  The superclass chain of a class, the class itself first, and the entry of a class's
  own method table.
\<close>

fun superclass_chain :: "lox_class \<Rightarrow> lox_class list" where
  "superclass_chain (LoxClass n super ms) =
     LoxClass n super ms # (case super of None \<Rightarrow> [] | Some k \<Rightarrow> superclass_chain k)"

fun own_method :: "lox_class \<Rightarrow> string \<Rightarrow> func option" where
  "own_method (LoxClass n super ms) name = map_of ms name"

text \<open>\<^verbatim>\<open>class C < B {}\<close>: with \<open>B\<close> and \<open>A\<close>, a chain of three classes.\<close>

definition class_C :: lox_class where
  "class_C = LoxClass ''C'' (Some class_B) []"

section \<open>Properties\<close>

lemma find_scope_NoScope_define:
  "find_scope h r name = NoScope \<Longrightarrow> r < length h"
  by (subst (asm) find_scope.simps) (simp split: if_splits)

text \<open>
  C3 (as the code has it).  When no scope of the chain starting at the current
  environment defines the name, \<open>assign_variable\<close> does not fail: it defines the name
  in the current environment with the assigned value, and a read of the name then yields
  that value.  No parameter of the evaluator selects another behaviour.
\<close>

theorem assign_variable_undefined_defines:
  assumes "find_scope (envs s) (environment s) name = NoScope"
  shows "assign_variable name v s = Some (env_define (environment s) name v s)
         \<and> lookup_variable name (env_define (environment s) name v s) = Some (Inr v)"
proof -
  have r: "environment s < length (envs s)"
    using assms by (rule find_scope_NoScope_define)
  have "find_scope (envs (env_define (environment s) name v s)) (environment s) name
          = Scope (environment s)"
    using r by (subst find_scope.simps) (simp add: env_define_def)
  then have "lookup_variable name (env_define (environment s) name v s) = Some (Inr v)"
    using r by (simp add: lookup_variable_def env_get_def) (simp add: env_define_def)
  then show ?thesis using assms by (simp add: assign_variable_def)
qed

theorem assign_variable_undefined_defines_witness:
  "find_scope (envs (empty_state [])) (environment (empty_state [])) ''x'' = NoScope
   \<and> assign_variable ''x'' (VInt 1) (empty_state [])
       = Some (env_define (environment (empty_state [])) ''x'' (VInt 1) (empty_state []))
   \<and> lookup_variable ''x'' (env_define (environment (empty_state [])) ''x'' (VInt 1) (empty_state []))
       = Some (Inr (VInt 1))"
proof -
  have h: "find_scope (envs (empty_state [])) (environment (empty_state [])) ''x'' = NoScope"
    by (subst find_scope.simps) (simp add: empty_state_def new_env_def)
  show ?thesis
    using h assign_variable_undefined_defines [OF h, of "VInt 1"] by simp
qed

text \<open>
  C3, the claim as stated, fails.  In the initial state no scope defines \<open>x\<close>, and
  evaluating the assignment \<open>x = 1\<close> does not raise: it returns 1 and leaves \<open>x\<close>
  defined in the global scope, where a read then finds it.  \<open>Environment.assign\<close> would
  have raised; the evaluator does not call it.
\<close>

theorem assign_variable_undefined_counterexample:
  "find_scope (envs (init_state [])) (environment (init_state [])) ''x'' = NoScope
   \<and> evaluate test_host (Suc (Suc 0)) (Assign ''x'' (Literal (LInt 1))) (init_state [])
       = Some (Inr (VInt 1), env_define 0 ''x'' (VInt 1) (init_state []))
   \<and> lookup_variable ''x'' (env_define 0 ''x'' (VInt 1) (init_state [])) = Some (Inr (VInt 1))
   \<and> env_assign (environment (init_state [])) ''x'' (VInt 1) (init_state [])
       = Some (Inl (LoxRuntimeError ''Undefined variable 'x'.''))"
proof -
  have h: "find_scope (envs (init_state [])) (environment (init_state [])) ''x'' = NoScope"
    by (subst find_scope.simps)
       (simp add: init_state_def define_globals_def empty_state_def new_env_def env_define_def)
  have e: "environment (init_state []) = 0"
    by (simp add: init_state_def define_globals_def empty_state_def env_define_def)
  have l: "lookup_variable ''x'' (env_define 0 ''x'' (VInt 1) (init_state [])) = Some (Inr (VInt 1))"
    by (simp add: lookup_variable_def env_get_def find_scope.simps init_state_def
          define_globals_def empty_state_def new_env_def env_define_def)
  show ?thesis
    using h e l
    by (simp add: evaluate_def run.simps(2) bnd_def ret_def assign_variable_def env_assign_def)
qed

text \<open>The definitions that a run on a concrete program unfolds.\<close>

lemmas run_defs = run.simps(2) evaluate_def execute_def interpret_program_def
  bnd_def ret_def raise_def visit_variable_def visit_call_def visit_new_def call_value_def
  class_call_def call_function_def execute_block_def visit_block_stmt_def
  lookup_variable_def env_get_def assign_variable_def env_define_def alloc_env_def new_env_def
  init_state_def define_globals_def empty_state_def find_scope.simps
  get_property_def instance_get_def instance_at_def alloc_instance_def declare_class_def
  collect_methods_def bind_def print_value_def undefined_property_def set_property_def
  instance_set_def visit_super_expr_def no_attribute_of_def no_attribute_def
  arity_mismatch_def str_int_def str_nat.simps strip_dot0_def plus_values_def binary_op_def
  alloc_list_def alloc_dict_def list_at_def dict_at_def index_value_def index_assign_def
  unhashable_def set_list_def set_dict_def newline_def new_id_def
  is_equal_def key_eq_def
lemma digit_chars:
  "char_of (48::nat) = CHR ''0''" "char_of (49::nat) = CHR ''1''"
  "char_of (50::nat) = CHR ''2''" "char_of (51::nat) = CHR ''3''"
  "char_of (52::nat) = CHR ''4''" "char_of (53::nat) = CHR ''5''"
  "char_of (54::nat) = CHR ''6''" "char_of (55::nat) = CHR ''7''"
  "char_of (56::nat) = CHR ''8''" "char_of (57::nat) = CHR ''9''"
  by code_simp+

subsection \<open>Object identity\<close>

text \<open>
  Functions, built-in functions and classes are equal, and the same dict key, exactly when
  they are the same object, whatever their content: a class declared twice by the same text
  is two classes.
\<close>

lemma key_eq_objects:
  "key_eq H (VFunction i f) (VFunction j g) = (i = j)"
  "key_eq H (VBuiltin i b) (VBuiltin j b') = (i = j)"
  "key_eq H (VClass i c) (VClass j c') = (i = j)"
  "key_eq H (VInstance r) (VInstance q) = (r = q)"
  by (simp_all add: key_eq_def)

lemma is_equal_objects:
  "is_equal H (Suc n) s (VFunction i f) (VFunction j g) = Some (i = j)"
  "is_equal H (Suc n) s (VClass i c) (VClass j c') = Some (i = j)"
  by (simp_all add: is_equal_def key_eq_def)

lemma identity_program_prints:
  "map_option (\<lambda>(e, s). (e, stdout s))
     (interpret_program H (Suc (Suc (Suc (Suc n)))) identity_program (init_state []))
     = Some (Completed, ''false'' @ [newline] @ ''true'' @ [newline])"
  by (simp add: identity_program_def run_defs)

subsection \<open>Superclass dispatch\<close>

text \<open>
  C1.  Evaluating a \<open>super.method\<close> expression never reaches \<open>find_method\<close>: in any
  state and for any method name, \<open>visit_super_expr\<close> raises the host's
  \<open>AttributeError\<close> for the attribute \<open>locals\<close> that an \<open>Interpreter\<close> does not
  have.  On the three-level chain of \<open>super_program\<close> (where the claim expects \<open>1\<close> to be
  printed) that exception is not caught by \<open>interpret\<close> and ends the run.
\<close>

theorem super_expr_raises_attribute_error:
  "evaluate H (Suc n) (Super m) s = Some (Inl (no_attribute_of ''Interpreter'' ''locals''), s)
   \<and> map_option (\<lambda>(e, s). (e, stdout s))
        (interpret_program H (Suc (Suc (Suc (Suc (Suc (Suc (Suc n))))))) super_program
           (init_state []))
       = Some (Uncaught (no_attribute_of ''Interpreter'' ''locals''), [])"
  by (simp add: super_program_def run_defs)

subsection \<open>Runtime errors at the top level\<close>

text \<open>
  C2.  The error that \<open>LoxInstance.get\<close> raises for an undefined property is the host's
  built-in \<open>RuntimeError\<close>, not the class that \<open>interpret\<close> catches: on
  \<open>property_program\<close> the run ends with that exception uncaught, and nothing is
  reported on the output.
\<close>

theorem undefined_property_escapes_interpret:
  "map_option (\<lambda>(e, s). (e, stdout s))
     (interpret_program H (Suc (Suc (Suc (Suc n)))) property_program (init_state []))
     = Some (Uncaught (PyRuntimeError ''Undefined property 'x'.''), [])"
  by (simp add: property_program_def run_defs)

text \<open>
  For comparison, what the claim describes does hold for the errors raised inside
  interpreter.py: the first statement that raises one ends the loop, and the message is
  reported.
\<close>

lemma interpret_loop_stops_at_error:
  assumes "interpret_loop H n pre s = Some (Inr u, s1)"
    and "execute H n st s1 = Some (Inl e, s2)"
  shows "interpret_loop H n (pre @ Some st # rest) s = Some (Inl e, s2)"
  using assms
proof (induction pre arbitrary: s u)
  case Nil
  then show ?case by (simp add: ret_def bnd_def)
next
  case (Cons a pre)
  show ?case
  proof (cases a)
    case None
    with Cons show ?thesis by simp
  next
    case (Some st')
    with Cons.prems(1) obtain u' s' where
      ex: "execute H n st' s = Some (Inr u', s')" and
      rest: "interpret_loop H n pre s' = Some (Inr u, s1)"
      by (auto simp: bnd_def split: option.splits sum.splits prod.splits)
    from Cons.IH [OF rest Cons.prems(2)] ex Some show ?thesis
      by (simp add: bnd_def)
  qed
qed

subsection \<open>Arity\<close>

text \<open>
  C4.  A call expression whose callee is a class does not fail with the arity error: the
  interpreter asks the callee for \<open>arity()\<close>, which \<open>LoxClass\<close> lacks, and the host's
  \<open>AttributeError\<close> leaves \<open>interpret\<close> uncaught (\<open>class_call_program\<close>, a class
  whose \<open>init\<close> has two parameters, called with one argument).  With a function of two
  parameters as the callee (\<open>function_call_program\<close>) the call is refused with the
  arity error, and the body's \<open>print\<close> is not run.
\<close>

theorem call_expr_on_class_raises_attribute_error:
  "map_option (\<lambda>(e, s). (e, stdout s))
     (interpret_program H (Suc (Suc (Suc (Suc n)))) class_call_program (init_state []))
     = Some (Uncaught (no_attribute_of ''LoxClass'' ''arity''), [])
   \<and> map_option (\<lambda>(e, s). (e, stdout s))
       (interpret_program H (Suc (Suc (Suc (Suc n)))) function_call_program (init_state []))
     = Some (Reported ''Expected 2 arguments but got 1.'',
             ''Runtime error: Expected 2 arguments but got 1.'' @ [newline])"
  by (simp add: class_call_program_def function_call_program_def run_defs digit_chars)

text \<open>
  Where the callee has an \<open>arity\<close>, the check is as the claim says: a different number
  of arguments raises the error that names both counts, and the state is the one reached
  after the arguments were evaluated.
\<close>

lemma visit_call_arity_mismatch:
  "arity c = Inr k \<Longrightarrow> length vs \<noteq> k \<Longrightarrow>
     visit_call ex c vs s = Some (Inl (arity_mismatch k (length vs)), s)"
  by (cases c) (auto simp: visit_call_def raise_def)

text \<open>
  C5.  Of the three callables, \<open>Function\<close> and \<open>BuiltinFunction\<close> answer
  \<open>arity()\<close>; \<open>LoxClass\<close> has no such method, whatever its \<open>init\<close>, and a call
  expression on a class fails on that lookup for every argument list.
\<close>

theorem lox_class_has_no_arity:
  "arity (VFunction i (Function d c)) = Inr (length (params d))
   \<and> arity (VBuiltin i (BuiltinFunction k f)) = Inr k
   \<and> arity (VClass i cl) = Inl (no_attribute_of ''LoxClass'' ''arity'')
   \<and> visit_call ex (VClass i cl) vs s = Some (Inl (no_attribute_of ''LoxClass'' ''arity''), s)"
  by (simp add: visit_call_def raise_def no_attribute_def)

subsection \<open>String concatenation\<close>

text \<open>
  C6.  When exactly one operand of \<open>+\<close> is a string, the other operand is converted by
  the host's \<open>str\<close>, not by \<open>stringify\<close>: \<open>None\<close> gives \<open>None\<close> where
  \<open>stringify\<close> gives \<open>nil\<close>, \<open>True\<close> gives \<open>True\<close> where \<open>stringify\<close> gives
  \<open>true\<close>, and a float gives its host text, from which \<open>stringify\<close> would strip a
  final \<open>.0\<close>.  \<open>concat_program\<close> prints \<open>aNone\<close>.
\<close>

theorem plus_converts_with_host_str:
  "plus_values H n (VStr x) VNone s = Some (Inr (VStr (x @ ''None'')), s)
   \<and> stringify H (Suc n) s VNone = Some ''nil''
   \<and> plus_values H n (VStr x) (VBool True) s = Some (Inr (VStr (x @ ''True'')), s)
   \<and> stringify H (Suc n) s (VBool True) = Some ''true''
   \<and> plus_values H n (VStr x) (VFloat f) s = Some (Inr (VStr (x @ float_str H f)), s)
   \<and> stringify H (Suc n) s (VFloat f) = Some (strip_dot0 (float_str H f))
   \<and> strip_dot0 ''3.0'' = ''3''
   \<and> map_option (\<lambda>(e, s). (e, stdout s))
        (interpret_program H (Suc (Suc (Suc (Suc (Suc (Suc n)))))) concat_program (init_state []))
       = Some (Completed, ''aNone'' @ [newline])"
  by (simp add: concat_program_def run_defs str_bool_def)
subsection \<open>Construction\<close>

text \<open>\<open>find_method\<close> returns the first entry for the name along the superclass chain.\<close>

lemma find_method_first_in_chain:
  "find_method c name =
     (case List.map_filter (\<lambda>k. own_method k name) (superclass_chain c) of
        [] \<Rightarrow> None
      | m # ms \<Rightarrow> Some m)"
proof (induction c)
  case (LoxClass n super ms)
  show ?case
  proof (cases "map_of ms name")
    case (Some f)
    then show ?thesis by (simp add: List.map_filter_simps)
  next
    case None
    show ?thesis
    proof (cases super)
      case None
      with \<open>map_of ms name = None\<close> show ?thesis by (simp add: List.map_filter_simps)
    next
      case (Some k)
      with LoxClass [of k] \<open>map_of ms name = None\<close> show ?thesis
        by (simp add: List.map_filter_simps)
    qed
  qed
qed

lemma find_method_somewhere_in_chain:
  "(find_method c name \<noteq> None) = (\<exists>k \<in> set (superclass_chain c). own_method k name \<noteq> None)"
proof (induction c)
  case (LoxClass n super ms)
  show ?case
  proof (cases super)
    case None
    then show ?thesis by (auto split: option.splits)
  next
    case (Some k)
    with LoxClass [of k] show ?thesis by (auto split: option.splits)
  qed
qed

text \<open>
  C7.  \<open>LoxClass.call\<close>, for every class, argument list and state.  It allocates a new
  instance of the class, with no fields, at a reference that the heap did not hold.  It
  looks \<open>init\<close> up with \<open>find_method\<close>, which finds a method exactly when some class of
  the superclass chain has it in its own table, and then the first such along the chain.
  Without an initializer the new instance is the result.  With one, the initializer is
  bound (a new environment under its closure, in which \<open>this\<close> is the new instance) and
  called with the arguments: when that call returns, whatever the value, the result is the
  new instance, in the state the call reached; when it raises (a runtime error in the body,
  or the \<open>IndexError\<close> of the parameter loop when the arguments are fewer than the
  parameters), the exception is the outcome of the construction; when it does not
  terminate, neither does the construction.  So every result of a construction is the new
  instance.
\<close>

theorem class_call_yields_instance:
  "instance_at s (length (instances s)) = None
   \<and> instance_at (snd (alloc_instance c s)) (length (instances s))
       = Some \<lparr>klass = c, inst_fields = Map.empty\<rparr>
   \<and> find_method c ''init''
       = (case List.map_filter (\<lambda>k. own_method k ''init'') (superclass_chain c) of
            [] \<Rightarrow> None
          | m # ms \<Rightarrow> Some m)
   \<and> ((find_method c ''init'' \<noteq> None)
        = (\<exists>k \<in> set (superclass_chain c). own_method k ''init'' \<noteq> None))
   \<and> class_call ex c args s
       = (case find_method c ''init'' of
            None \<Rightarrow> Some (Inr (VInstance (length (instances s))), snd (alloc_instance c s))
          | Some m \<Rightarrow>
              (case call_function ex
                      (fst (bind m (VInstance (length (instances s))) (snd (alloc_instance c s))))
                      args
                      (snd (bind m (VInstance (length (instances s))) (snd (alloc_instance c s))))
               of
                 None \<Rightarrow> None
               | Some (Inl e, s3) \<Rightarrow> Some (Inl e, s3)
               | Some (Inr v, s3) \<Rightarrow> Some (Inr (VInstance (length (instances s))), s3)))
   \<and> (\<forall>d e. bind (Function d e) (VInstance (length (instances s))) (snd (alloc_instance c s))
          = (Function d (length (envs s)),
             (snd (alloc_instance c s))
               \<lparr>envs := envs s @ [\<lparr>vals = [''this'' \<mapsto> VInstance (length (instances s))],
                                   enclosing = Some e\<rparr>]\<rparr>))
   \<and> (\<forall>v s'. class_call ex c args s = Some (Inr v, s') \<longrightarrow> v = VInstance (length (instances s)))"
proof -
  have alloc: "instance_at s (length (instances s)) = None"
    "instance_at (snd (alloc_instance c s)) (length (instances s))
       = Some \<lparr>klass = c, inst_fields = Map.empty\<rparr>"
    by (simp_all add: alloc_instance_def instance_at_def)
  have call: "class_call ex c args s
       = (case find_method c ''init'' of
            None \<Rightarrow> Some (Inr (VInstance (length (instances s))), snd (alloc_instance c s))
          | Some m \<Rightarrow>
              (case call_function ex
                      (fst (bind m (VInstance (length (instances s))) (snd (alloc_instance c s))))
                      args
                      (snd (bind m (VInstance (length (instances s))) (snd (alloc_instance c s))))
               of
                 None \<Rightarrow> None
               | Some (Inl e, s3) \<Rightarrow> Some (Inl e, s3)
               | Some (Inr v, s3) \<Rightarrow> Some (Inr (VInstance (length (instances s))), s3)))"
    by (simp add: class_call_def alloc_instance_def ret_def bnd_def
          split: prod.splits option.splits sum.splits)
  have bound: "\<forall>d e. bind (Function d e) (VInstance (length (instances s))) (snd (alloc_instance c s))
          = (Function d (length (envs s)),
             (snd (alloc_instance c s))
               \<lparr>envs := envs s @ [\<lparr>vals = [''this'' \<mapsto> VInstance (length (instances s))],
                                   enclosing = Some e\<rparr>]\<rparr>)"
    by (simp add: bind_def alloc_env_def alloc_instance_def env_define_def new_env_def)
  have res: "\<forall>v s'. class_call ex c args s = Some (Inr v, s') \<longrightarrow> v = VInstance (length (instances s))"
    unfolding call by (auto split: option.splits sum.splits prod.splits)
  show ?thesis
    apply (intro conjI)
          apply (rule alloc(1))
         apply (rule alloc(2))
        apply (rule find_method_first_in_chain)
       apply (rule find_method_somewhere_in_chain)
      apply (rule call)
     apply (rule bound)
    apply (rule res)
    done
qed

text \<open>
  The witness: \<open>class C < B {}\<close>, \<open>class B < A {}\<close>, and \<open>A\<close> with
  \<open>init(x) { this.x = x; return 5; }\<close>.  The initializer is found two levels up.  Called
  with the argument 7 it returns 5, and the construction yields the new instance, whose
  field \<open>x\<close> is 7.  Called with no argument, the parameter loop raises \<open>IndexError\<close>,
  and so does the construction.
\<close>

theorem class_call_yields_instance_witness:
  "own_method class_C ''init'' = None \<and> own_method class_B ''init'' = None
   \<and> own_method class_A ''init'' = Some init_A
   \<and> superclass_chain class_C = [class_C, class_B, class_A]
   \<and> find_method class_C ''init'' = Some init_A
   \<and> map_option (\<lambda>(r, s3). (r, map_option (\<lambda>i. inst_fields i ''x'') (instance_at s3 0)))
        (class_call (execute test_host (Suc (Suc (Suc 0)))) class_C [VInt 7] (init_state []))
       = Some (Inr (VInstance 0), Some (Some (VInt 7)))
   \<and> map_option fst
        (class_call (execute test_host (Suc (Suc (Suc 0)))) class_C [] (init_state []))
       = Some (Inl (IndexError ''list index out of range''))"
proof -
  let ?ex = "execute test_host (Suc (Suc (Suc 0)))"
  let ?s = "init_state []"
  have own: "own_method class_C ''init'' = None" "own_method class_B ''init'' = None"
    "own_method class_A ''init'' = Some init_A"
    "superclass_chain class_C = [class_C, class_B, class_A]"
    by (simp_all add: class_C_def class_B_def class_A_def)
  have len: "length (instances ?s) = 0"
    by (simp add: run_defs)
  note first = class_call_yields_instance
    [of ?s class_C ?ex "[]", THEN conjunct2, THEN conjunct2, THEN conjunct1]
  note total = class_call_yields_instance
    [of ?s class_C ?ex, THEN conjunct2, THEN conjunct2, THEN conjunct2, THEN conjunct2,
     THEN conjunct1]
  have m: "find_method class_C ''init'' = Some init_A"
    unfolding first by (simp add: own List.map_filter_simps)
  let ?f = "fst (bind init_A (VInstance (length (instances ?s))) (snd (alloc_instance class_C ?s)))"
  let ?s2 = "snd (bind init_A (VInstance (length (instances ?s))) (snd (alloc_instance class_C ?s)))"
  obtain s3 where call: "call_function ?ex ?f [VInt 7] ?s2 = Some (Inr (VInt 5), s3)"
    and fld: "map_option (\<lambda>i. inst_fields i ''x'') (instance_at s3 0) = Some (Some (VInt 7))"
    by (simp add: init_A_def class_C_def class_B_def class_A_def run_defs)
  obtain s4 where short: "call_function ?ex ?f [] ?s2
      = Some (Inl (IndexError ''list index out of range''), s4)"
    by (simp add: init_A_def class_C_def class_B_def class_A_def run_defs)
  have c1: "class_call ?ex class_C [VInt 7] ?s = Some (Inr (VInstance 0), s3)"
    unfolding total [of "[VInt 7]"] m using call len by simp
  have c2: "class_call ?ex class_C [] ?s
      = Some (Inl (IndexError ''list index out of range''), s4)"
    unfolding total [of "[]"] m using short by simp
  show ?thesis
    unfolding c1 c2 using own m fld by simp
qed

subsection \<open>Blocks\<close>

text \<open>
  C8.  A block statement allocates a new environment whose parent is the environment
  current at entry, runs its statements with the register set to that new environment, and
  whatever the outcome of the statements (completion, a runtime error, a \<open>return\<close>
  unwinding, any other exception) the register of the resulting state is the one of the
  entry state.  The block adds no way of not terminating: it yields an outcome exactly when
  its statements do.
\<close>

theorem block_restores_environment:
  "execute H (Suc n) (BlockStmt sts) s
     = map_option (\<lambda>(r, s1). (r, s1\<lparr>environment := environment s\<rparr>))
         (execute_stmts (execute H n) sts
            (s\<lparr>envs := envs s @ [\<lparr>vals = Map.empty, enclosing = Some (environment s)\<rparr>],
               environment := length (envs s)\<rparr>))
   \<and> (\<forall>r s'. execute H (Suc n) (BlockStmt sts) s = Some (r, s') \<longrightarrow>
          environment s' = environment s)"
proof -
  have run: "(\<lambda>st. run H n (Execute st)) = execute H n"
    by (rule ext)+ (simp add: execute_def)
  have eq: "execute H (Suc n) (BlockStmt sts) s
     = map_option (\<lambda>(r, s1). (r, s1\<lparr>environment := environment s\<rparr>))
         (execute_stmts (execute H n) sts
            (s\<lparr>envs := envs s @ [\<lparr>vals = Map.empty, enclosing = Some (environment s)\<rparr>],
               environment := length (envs s)\<rparr>))"
    by (simp add: execute_def run.simps(2) run visit_block_stmt_def execute_block_def
          alloc_env_def new_env_def split: option.splits)
  show ?thesis
    unfolding eq by auto
qed

text \<open>
  The witness: at the top level, the blocks \<open>{ x = 1; return 2; }\<close> (unwinding by
  \<open>return\<close>) and \<open>{ print y; }\<close> (a runtime error) both leave the register at the
  global environment, as does \<open>{ x = 1; }\<close>.
\<close>

theorem block_restores_environment_witness:
  "map_option (\<lambda>(r, s'). (r, environment s'))
     (execute test_host (Suc (Suc (Suc (Suc 0))))
        (BlockStmt [ExpressionStmt (Assign ''x'' (Literal (LInt 1))),
                    ReturnStmt (Some (Literal (LInt 2)))]) (init_state []))
     = Some (Inl (ReturnException (VInt 2)), environment (init_state []))
   \<and> map_option (\<lambda>(r, s'). (r, environment s'))
       (execute test_host (Suc (Suc (Suc (Suc 0))))
          (BlockStmt [PrintStmt (Variable ''y'')]) (init_state []))
     = Some (Inl (LoxRuntimeError ''Undefined variable 'y'.''), environment (init_state []))
   \<and> map_option (\<lambda>(r, s'). (r, environment s'))
       (execute test_host (Suc (Suc (Suc (Suc 0))))
          (BlockStmt [ExpressionStmt (Assign ''x'' (Literal (LInt 1)))]) (init_state []))
     = Some (Inr VNone, environment (init_state []))"
proof -
  let ?b1 = "BlockStmt [ExpressionStmt (Assign ''x'' (Literal (LInt 1))),
                        ReturnStmt (Some (Literal (LInt 2)))]"
  let ?b2 = "BlockStmt [PrintStmt (Variable ''y'')]"
  let ?b3 = "BlockStmt [ExpressionStmt (Assign ''x'' (Literal (LInt 1)))]"
  let ?n = "Suc (Suc (Suc 0))"
  obtain s1 where e1: "execute test_host (Suc ?n) ?b1 (init_state [])
      = Some (Inl (ReturnException (VInt 2)), s1)"
    by (simp add: run_defs)
  obtain s2 where e2: "execute test_host (Suc ?n) ?b2 (init_state [])
      = Some (Inl (LoxRuntimeError ''Undefined variable 'y'.''), s2)"
    by (simp add: run_defs)
  obtain s3 where e3: "execute test_host (Suc ?n) ?b3 (init_state []) = Some (Inr VNone, s3)"
    by (simp add: run_defs)
  have "environment s1 = environment (init_state [])"
    using block_restores_environment [of test_host ?n _ "init_state []"] e1 by blast
  moreover have "environment s2 = environment (init_state [])"
    using block_restores_environment [of test_host ?n _ "init_state []"] e2 by blast
  moreover have "environment s3 = environment (init_state [])"
    using block_restores_environment [of test_host ?n _ "init_state []"] e3 by blast
  ultimately show ?thesis
    using e1 e2 e3 by simp
qed

subsection \<open>Indexing\<close>

text \<open>
  C9.  Two inputs on which indexing departs from the claim.  Assigning through a list
  used as the key of a map, \<open>m[[1]] = 2\<close>, neither upserts nor fails with an error of
  the language: the host's \<open>TypeError\<close> leaves \<open>interpret\<close> uncaught
  (\<open>dict_key_program\<close>; \<open>visit_dictionary_expr\<close> rejects such a key with a runtime
  error).  And a boolean passes the test \<open>isinstance(index, int)\<close>: \<open>xs[true]\<close> is
  the element at index 1 (\<open>bool_index_program\<close> prints \<open>20\<close>).
\<close>

theorem index_unhashable_key_and_bool_index:
  "map_option (\<lambda>(e, s). (e, stdout s))
     (interpret_program H (Suc (Suc (Suc (Suc (Suc (Suc n)))))) dict_key_program (init_state []))
     = Some (Uncaught (unhashable (VList 0)), [])
   \<and> unhashable (VList 0) = TypeError (''unhashable type: '' @ [CHR 0x27] @ ''list'' @ [CHR 0x27])
   \<and> map_option (\<lambda>(e, s). (e, stdout s))
       (interpret_program H (Suc (Suc (Suc (Suc (Suc (Suc n)))))) bool_index_program (init_state []))
     = Some (Completed, ''20'' @ [newline])"
  by (simp add: dict_key_program_def bool_index_program_def run_defs digit_chars)

text \<open>
  On the other inputs the rules of the claim hold: for a list or a string, an index that
  is no integer is refused, an integer outside \<open>[0, length)\<close> is out of range, and an
  integer inside yields the element; for a map, a hashable key that is absent is not found;
  index-assignment into anything but a list or a map is refused.
\<close>

lemma index_value_list:
  assumes "list_at s r = Some xs"
  shows "as_int i = None \<Longrightarrow>
           index_value H (VList r) i s = Some (Inl (LoxRuntimeError ''List indices must be integers.''))"
    and "as_int i = Some k \<Longrightarrow> k < 0 \<or> int (length xs) \<le> k \<Longrightarrow>
           index_value H (VList r) i s
             = Some (Inl (LoxRuntimeError (''List index out of range: '' @ str_atom H i)))"
    and "as_int i = Some k \<Longrightarrow> 0 \<le> k \<Longrightarrow> k < int (length xs) \<Longrightarrow>
           index_value H (VList r) i s = Some (Inr (xs ! nat k))"
  using assms by (auto simp: index_value_def)

lemma index_value_str:
  shows "as_int i = None \<Longrightarrow>
           index_value H (VStr x) i s = Some (Inl (LoxRuntimeError ''String indices must be integers.''))"
    and "as_int i = Some k \<Longrightarrow> k < 0 \<or> int (length x) \<le> k \<Longrightarrow>
           index_value H (VStr x) i s
             = Some (Inl (LoxRuntimeError (''String index out of range: '' @ str_atom H i)))"
    and "as_int i = Some k \<Longrightarrow> 0 \<le> k \<Longrightarrow> k < int (length x) \<Longrightarrow>
           index_value H (VStr x) i s = Some (Inr (VStr [x ! nat k]))"
  by (auto simp: index_value_def)

lemma index_value_dict_absent:
  "dict_at s r = Some d \<Longrightarrow> hashable k \<Longrightarrow> dict_lookup H d k = None \<Longrightarrow>
     index_value H (VDict r) k s
       = Some (Inl (LoxRuntimeError (''Key not found in dictionary: '' @ str_atom H k)))"
  by (simp add: index_value_def)

lemma index_assign_str:
  "index_assign H (VStr x) i v s
     = Some (Inl (LoxRuntimeError ''Cannot assign to index of type str''), s)"
  by (simp add: index_assign_def)

subsection \<open>The two \<open>pop\<close>s\<close>

text \<open>
  C10.  The global \<open>pop\<close> is the built-in of arity 1 that raises a runtime error on an
  empty list; the \<open>pop\<close> obtained by property access on a list is a built-in of arity 0
  that returns \<open>None\<close> (the language's nil) on an empty list.  Neither call changes the
  state; the property access creates the built-in object, which takes an identity from the
  counter and changes nothing else.
\<close>

theorem pop_on_empty_list:
  assumes "list_at s r = Some []"
  shows "lookup_variable ''pop'' (init_state inp)
           = Some (Inr (VBuiltin 1 (BuiltinFunction 1 Pop)))
         \<and> visit_call ex (VBuiltin 1 (BuiltinFunction 1 Pop)) [VList r] s
             = Some (Inl (LoxRuntimeError ''pop expects a non-empty list''), s)
         \<and> get_property (VList r) ''pop'' s
             = Some (Inr (VBuiltin (next_id s) (BuiltinFunction 0 (ListPop r))),
                     s\<lparr>next_id := Suc (next_id s)\<rparr>)
         \<and> visit_call ex (VBuiltin (next_id s) (BuiltinFunction 0 (ListPop r))) []
               (s\<lparr>next_id := Suc (next_id s)\<rparr>)
             = Some (Inr VNone, s\<lparr>next_id := Suc (next_id s)\<rparr>)"
proof -
  have l: "list_at (s\<lparr>next_id := Suc (next_id s)\<rparr>) r = Some []"
    using assms by (simp add: list_at_def split: if_splits)
  show ?thesis
    using assms l
    by (simp add: visit_call_def call_value_def get_property_def ret_def new_id_def
          lookup_variable_def env_get_def init_state_def define_globals_def empty_state_def
          env_define_def new_env_def find_scope.simps)
qed

theorem pop_on_empty_list_witness:
  "list_at empty_list_state 0 = Some []
   \<and> next_id empty_list_state = 3
   \<and> visit_call (execute test_host 0) (VBuiltin 1 (BuiltinFunction 1 Pop)) [VList 0]
         empty_list_state
       = Some (Inl (LoxRuntimeError ''pop expects a non-empty list''), empty_list_state)
   \<and> get_property (VList 0) ''pop'' empty_list_state
       = Some (Inr (VBuiltin 3 (BuiltinFunction 0 (ListPop 0))),
               empty_list_state\<lparr>next_id := 4\<rparr>)
   \<and> visit_call (execute test_host 0) (VBuiltin 3 (BuiltinFunction 0 (ListPop 0))) []
         (empty_list_state\<lparr>next_id := 4\<rparr>)
       = Some (Inr VNone, empty_list_state\<lparr>next_id := 4\<rparr>)"
proof -
  have h: "list_at empty_list_state 0 = Some []"
    by (simp add: empty_list_state_def list_at_def)
  have n: "next_id empty_list_state = 3"
    by (simp add: empty_list_state_def init_state_def define_globals_def empty_state_def
          env_define_def)
  show ?thesis
    using h n pop_on_empty_list [OF h, of "[]" "execute test_host 0"] by simp
qed

end
